theory Spec2Isabelle
  imports Complex_Main
begin

section \<open>Photon-ALP conversion: the transfer-matrix engine of conversion.py\<close>

text \<open>
  The arithmetic of the embedding is exact: a Python float is a \<^typ>\<open>real\<close>, a numpy
  complex scalar is a \<^typ>\<open>complex\<close>, and rounding is not modelled. An operation that
  raises in Python is an \<open>Inl\<close> branch of the model: the division of a float by a zero
  float (\<open>fdiv\<close>), the read of an attribute that does not exist yet, \<open>np.linspace\<close> with
  a negative number of samples. An operation that numpy completes with \<open>inf\<close> or \<open>nan\<close>
  and a RuntimeWarning (the division of a numpy scalar by zero, the square root of a
  negative float) does not raise; the model computes it with the total operation of HOL,
  whose value at such a point is not the program's, and a theorem whose statement depends
  on such a value states the side condition (a nonzero denominator, a nonnegative
  radicand) as a hypothesis.
\<close>

text \<open>
  Float literals in scientific notation are written out: \<open>4.29e3\<close> is \<open>4290\<close>,
  \<open>1.17e-3\<close> is \<open>1.17 / 10 ^ 3\<close> and \<open>1e-20\<close> is \<open>1 / 10 ^ 20\<close>.
\<close>

datatype error = ZeroDivisionError | ValueError | AttributeError

subsection \<open>3x3 complex arrays\<close>

text \<open>
  A numpy array of shape (3,3) and dtype complex, one field per entry: \<open>eij\<close> is
  \<open>M[i,j]\<close>, and \<open>M[i,j] = v\<close> is the record update \<open>M\<lparr>eij := v\<rparr>\<close>.
\<close>

record cmat =
  e00 :: complex
  e01 :: complex
  e02 :: complex
  e10 :: complex
  e11 :: complex
  e12 :: complex
  e20 :: complex
  e21 :: complex
  e22 :: complex

definition zeros :: cmat where
  \<comment> \<open>\<open>np.zeros((3,3), np.complex)\<close>\<close>
  "zeros = \<lparr>e00 = 0, e01 = 0, e02 = 0, e10 = 0, e11 = 0, e12 = 0, e20 = 0, e21 = 0, e22 = 0\<rparr>"

definition ident :: cmat where
  \<comment> \<open>\<open>np.diag(np.diag(np.ones((3,3), np.complex)))\<close>\<close>
  "ident = \<lparr>e00 = 1, e01 = 0, e02 = 0, e10 = 0, e11 = 1, e12 = 0, e20 = 0, e21 = 0, e22 = 1\<rparr>"

definition madd :: "cmat \<Rightarrow> cmat \<Rightarrow> cmat" where
  \<comment> \<open>\<open>A + B\<close>, entry by entry\<close>
  "madd A B = \<lparr>e00 = e00 A + e00 B, e01 = e01 A + e01 B, e02 = e02 A + e02 B,
                e10 = e10 A + e10 B, e11 = e11 A + e11 B, e12 = e12 A + e12 B,
                e20 = e20 A + e20 B, e21 = e21 A + e21 B, e22 = e22 A + e22 B\<rparr>"


definition smul :: "complex \<Rightarrow> cmat \<Rightarrow> cmat" where
  \<comment> \<open>\<open>k * A\<close> for a scalar \<open>k\<close>\<close>
  "smul k A = \<lparr>e00 = k * e00 A, e01 = k * e01 A, e02 = k * e02 A,
                e10 = k * e10 A, e11 = k * e11 A, e12 = k * e12 A,
                e20 = k * e20 A, e21 = k * e21 A, e22 = k * e22 A\<rparr>"

definition dot :: "cmat \<Rightarrow> cmat \<Rightarrow> cmat" where
  \<comment> \<open>\<open>np.dot(A, B)\<close>: the matrix product, rows of \<open>A\<close> against columns of \<open>B\<close>\<close>
  "dot A B =
    \<lparr>e00 = e00 A * e00 B + e01 A * e10 B + e02 A * e20 B,
     e01 = e00 A * e01 B + e01 A * e11 B + e02 A * e21 B,
     e02 = e00 A * e02 B + e01 A * e12 B + e02 A * e22 B,
     e10 = e10 A * e00 B + e11 A * e10 B + e12 A * e20 B,
     e11 = e10 A * e01 B + e11 A * e11 B + e12 A * e21 B,
     e12 = e10 A * e02 B + e11 A * e12 B + e12 A * e22 B,
     e20 = e20 A * e00 B + e21 A * e10 B + e22 A * e20 B,
     e21 = e20 A * e01 B + e21 A * e11 B + e22 A * e21 B,
     e22 = e20 A * e02 B + e21 A * e12 B + e22 A * e22 B\<rparr>"

definition dagger :: "cmat \<Rightarrow> cmat" where
  \<comment> \<open>\<open>A.transpose().conjugate()\<close>\<close>
  "dagger A = \<lparr>e00 = cnj (e00 A), e01 = cnj (e10 A), e02 = cnj (e20 A),
                e10 = cnj (e01 A), e11 = cnj (e11 A), e12 = cnj (e21 A),
                e20 = cnj (e02 A), e21 = cnj (e12 A), e22 = cnj (e22 A)\<rparr>"

definition trace :: "cmat \<Rightarrow> complex" where
  \<comment> \<open>\<open>np.sum(np.diag(A))\<close>\<close>
  "trace A = e00 A + e11 A + e22 A"

subsection \<open>class PhotALPs: conversion in the intergalactic field, with absorption\<close>

text \<open>
  The attributes of a PhotALPs object. \<open>Ln\<close> is not set by \<open>__init__\<close>: it exists only
  after the first \<open>SetDomainN\<close>, so it is an option. The attribute \<open>Un\<close> is the field
  \<open>Un_mat\<close> (\<open>Un\<close> is a symbol of HOL). The optical depth object \<open>self.tau\<close> is an
  external collaborator; its method \<open>opt_depth\<close> is a parameter of the functions that
  call it. The method \<open>readz\<close>, which only sets \<open>z\<close> and \<open>Nd\<close>, is not needed below.
\<close>

record PhotALPs =
  Ld :: real
  xi :: real
  dz :: real
  E0 :: real
  Nd :: real
  z :: real
  mfn_print :: real
  dtau :: real
  Psin :: real
  dn :: real
  EW1n :: real
  EW2n :: complex
  EW3n :: complex
  Dn :: complex
  Ln :: "real option"
  T1 :: cmat
  T2 :: cmat
  T3 :: cmat
  Un_mat :: cmat

definition PhotALPs_init :: "real \<Rightarrow> real \<Rightarrow> PhotALPs" where
  \<comment> \<open>\<open>__init__(self, Ldom1, xi, ...)\<close>; reading the EBL model file is left out\<close>
  "PhotALPs_init Ldom1 xi0 =
    \<lparr>Ld = Ldom1, xi = xi0, dz = (1.17 / 10 ^ 3) * Ldom1 / 5, E0 = 0, Nd = 0, z = 0,
     mfn_print = 0, dtau = 0, Psin = 0, dn = 0, EW1n = 0, EW2n = 0, EW3n = 0, Dn = 0,
     Ln = None, T1 = zeros, T2 = zeros, T3 = zeros, Un_mat = zeros\<rparr>"

definition SetT1n :: "PhotALPs \<Rightarrow> PhotALPs" where
  "SetT1n self =
    (let s = sin (Psin self);
         c = cos (Psin self);
         self = self\<lparr>T1 := (T1 self)\<lparr>e00 := complex_of_real (c * c)\<rparr>\<rparr>;
         self = self\<lparr>T1 := (T1 self)\<lparr>e01 := complex_of_real (- 1 * s * c)\<rparr>\<rparr>;
         self = self\<lparr>T1 := (T1 self)\<lparr>e10 := e01 (T1 self)\<rparr>\<rparr>;
         self = self\<lparr>T1 := (T1 self)\<lparr>e11 := complex_of_real (s * s)\<rparr>\<rparr>
     in self)"

definition SetT2n :: "PhotALPs \<Rightarrow> PhotALPs" where
  "SetT2n self =
    (let s = complex_of_real (sin (Psin self));
         c = complex_of_real (cos (Psin self));
         self = self\<lparr>T2 := (T2 self)\<lparr>e00 := 0.5 * (1 + Dn self) / Dn self * s * s\<rparr>\<rparr>;
         self = self\<lparr>T2 := (T2 self)\<lparr>e01 := 0.5 * (1 + Dn self) / Dn self * s * c\<rparr>\<rparr>;
         self = self\<lparr>T2 := (T2 self)\<lparr>e02 := - 1 * \<i> * complex_of_real (dn self) / Dn self * s\<rparr>\<rparr>;
         self = self\<lparr>T2 := (T2 self)\<lparr>e10 := e01 (T2 self)\<rparr>\<rparr>;
         self = self\<lparr>T2 := (T2 self)\<lparr>e20 := e02 (T2 self)\<rparr>\<rparr>;
         self = self\<lparr>T2 := (T2 self)\<lparr>e11 := 0.5 * (1 + Dn self) / Dn self * c * c\<rparr>\<rparr>;
         self = self\<lparr>T2 := (T2 self)\<lparr>e12 := - 1 * \<i> * complex_of_real (dn self) / Dn self * c\<rparr>\<rparr>;
         self = self\<lparr>T2 := (T2 self)\<lparr>e21 := e12 (T2 self)\<rparr>\<rparr>;
         self = self\<lparr>T2 := (T2 self)\<lparr>e22 := 0.5 * (- 1 + Dn self) / Dn self\<rparr>\<rparr>
     in self)"

definition SetT3n :: "PhotALPs \<Rightarrow> PhotALPs" where
  "SetT3n self =
    (let s = complex_of_real (sin (Psin self));
         c = complex_of_real (cos (Psin self));
         self = self\<lparr>T3 := (T3 self)\<lparr>e00 := 0.5 * (- 1 + Dn self) / Dn self * s * s\<rparr>\<rparr>;
         self = self\<lparr>T3 := (T3 self)\<lparr>e01 := 0.5 * (- 1 + Dn self) / Dn self * s * c\<rparr>\<rparr>;
         self = self\<lparr>T3 := (T3 self)\<lparr>e02 := 1 * \<i> * complex_of_real (dn self) / Dn self * s\<rparr>\<rparr>;
         self = self\<lparr>T3 := (T3 self)\<lparr>e10 := e01 (T3 self)\<rparr>\<rparr>;
         self = self\<lparr>T3 := (T3 self)\<lparr>e20 := e02 (T3 self)\<rparr>\<rparr>;
         self = self\<lparr>T3 := (T3 self)\<lparr>e11 := 0.5 * (- 1 + Dn self) / Dn self * c * c\<rparr>\<rparr>;
         self = self\<lparr>T3 := (T3 self)\<lparr>e12 := 1 * \<i> * complex_of_real (dn self) / Dn self * c\<rparr>\<rparr>;
         self = self\<lparr>T3 := (T3 self)\<lparr>e21 := e12 (T3 self)\<rparr>\<rparr>;
         self = self\<lparr>T3 := (T3 self)\<lparr>e22 := 0.5 * (1 + Dn self) / Dn self\<rparr>\<rparr>
     in self)"

definition SetUn :: "PhotALPs \<Rightarrow> error + PhotALPs" where
  \<comment> \<open>reading \<open>self.Ln\<close> before any \<open>SetDomainN\<close> raises AttributeError\<close>
  "SetUn self =
    (case Ln self of
       None \<Rightarrow> Inl AttributeError
     | Some L \<Rightarrow>
         Inr (self\<lparr>Un_mat :=
           madd (madd (smul (exp (complex_of_real (EW1n self * L))) (T1 self))
                      (smul (exp (EW2n self * complex_of_real L)) (T2 self)))
                (smul (exp (EW3n self * complex_of_real L)) (T3 self))\<rparr>))"

definition fdiv :: "real \<Rightarrow> real \<Rightarrow> error + real" where
  \<comment> \<open>the quotient of two Python floats\<close>
  "fdiv a b = (if b = 0 then Inl ZeroDivisionError else Inr (a / b))"

definition SetDomainN :: "(real \<Rightarrow> real \<Rightarrow> real) \<Rightarrow> int \<Rightarrow> PhotALPs \<Rightarrow> error + PhotALPs" where
  \<comment> \<open>\<open>opt_depth\<close> returns a float, so \<open>mfn\<close> is a float and the quotients by it are
      divisions of floats; the matrix returned is \<open>Un_mat\<close> of the new state\<close>
  "SetDomainN opt_depth n self =
    (let nr = real_of_int n;
         En = E0 self * (1 + (nr - 1) * dz self);
         difftau = opt_depth (nr * dz self) (E0 self) - opt_depth ((nr - 1) * dz self) (E0 self)
     in case fdiv (4290 * dz self) (1 + 1.45 * (nr - 1) * dz self) of
          Inl err \<Rightarrow> Inl err
        | Inr L \<Rightarrow>
           (let self = self\<lparr>Ln := Some L\<rparr>;
                mfn = (if difftau \<noteq> 0 then L / difftau else L / (1 / 10 ^ 20));
                self = self\<lparr>mfn_print := mfn\<rparr>;
                self = self\<lparr>dtau := difftau\<rparr>;
                self = self\<lparr>dn := 0.11 * xi self * mfn * (1 + (nr - 1) * dz self)\<^sup>2\<rparr>;
                self = self\<lparr>Dn := 1 - 4 * complex_of_real ((dn self)\<^sup>2) + 0 * \<i>\<rparr>;
                self = self\<lparr>Dn := csqrt (Dn self)\<rparr>
            in case fdiv (- 0.5) mfn of
                 Inl err \<Rightarrow> Inl err
               | Inr q1 \<Rightarrow>
                  (let self = self\<lparr>EW1n := q1\<rparr>
                   in case fdiv (- 0.25) mfn of
                        Inl err \<Rightarrow> Inl err
                      | Inr q2 \<Rightarrow>
                         (let self = self\<lparr>EW2n := complex_of_real q2 * (1 + Dn self)\<rparr>
                          in case fdiv (- 0.25) mfn of
                               Inl err \<Rightarrow> Inl err
                             | Inr q3 \<Rightarrow>
                                (let self = self\<lparr>EW3n := complex_of_real q3 * (1 - Dn self)\<rparr>;
                                     self = SetT1n self;
                                     self = SetT2n self;
                                     self = SetT3n self
                                 in SetUn self)))))"


subsection \<open>class PhotALPs_ICM: conversion without absorption\<close>

text \<open>
  The functions of the module \<open>deltas\<close> are external collaborators (the Delta provider),
  as are the coordinate transformation, the field model of \<open>gmf\<close>, the projections of
  \<open>gmf.trafo\<close> and scipy's \<open>simps\<close>. They are the fields of one record that every
  function calling them takes as a parameter.
\<close>

type_synonym vec3 = "real \<times> real \<times> real"

record collaborators =
  Delta_pl_kpc :: "real \<Rightarrow> real \<Rightarrow> real"
  Delta_QED_kpc :: "real \<Rightarrow> real \<Rightarrow> real"
  Delta_ag_kpc :: "real \<Rightarrow> real \<Rightarrow> real"
  Delta_a_kpc :: "real \<Rightarrow> real \<Rightarrow> real"
  wcs_transform :: "real \<Rightarrow> real \<Rightarrow> real \<times> real"
  rho_HC2GC :: "real \<Rightarrow> real \<Rightarrow> real \<Rightarrow> real \<Rightarrow> real"
  phi_HC2GC :: "real \<Rightarrow> real \<Rightarrow> real \<Rightarrow> real \<Rightarrow> real"
  z_HC2GC :: "real \<Rightarrow> real \<Rightarrow> real \<Rightarrow> real \<Rightarrow> real"
  Bdisk :: "real \<Rightarrow> real \<Rightarrow> real \<Rightarrow> vec3"
  Bhalo :: "real \<Rightarrow> real \<Rightarrow> vec3"
  BX :: "real \<Rightarrow> real \<Rightarrow> vec3"
  GC2HCproj :: "vec3 \<Rightarrow> real \<Rightarrow> real \<Rightarrow> real \<Rightarrow> real \<Rightarrow> vec3"
  simps :: "real list \<Rightarrow> real list \<Rightarrow> real"

text \<open>
  The attributes of a PhotALPs_ICM object. The attributes that share a name with one of
  class PhotALPs, and the one-letter attributes \<open>E\<close>, \<open>B\<close>, \<open>g\<close>, \<open>m\<close>, \<open>n\<close>, carry the
  suffix \<open>_icm\<close>. The attributes \<open>Dperp\<close> to \<open>EW3\<close> are created by the private methods
  \<open>__setDeltas\<close> and \<open>__setEW\<close>, which \<open>SetDomainN\<close> calls before any method that
  reads them; the model starts them at 0.
\<close>

record PhotALPs_ICM =
  Nd_icm :: real
  Lcoh :: real
  E_icm :: real
  B_icm :: real
  g_icm :: real
  m_icm :: real
  n_icm :: real
  xi_icm :: real
  Psin_icm :: real
  T1_icm :: cmat
  T2_icm :: cmat
  T3_icm :: cmat
  Un_icm :: cmat
  Dperp :: real
  Dpar :: real
  Dag :: real
  Da :: real
  alph :: real
  Dosc :: real
  EW1 :: real
  EW2 :: real
  EW3 :: real

definition PhotALPs_ICM_init ::
  "real \<Rightarrow> real \<Rightarrow> real \<Rightarrow> real \<Rightarrow> real \<Rightarrow> real \<Rightarrow> real \<Rightarrow> error + PhotALPs_ICM" where
  "PhotALPs_ICM_init Lcoh0 B0 r_abell E_GeV g0 m0 n0 =
    (case fdiv r_abell Lcoh0 of
       Inl err \<Rightarrow> Inl err
     | Inr nd \<Rightarrow>
         Inr \<lparr>Nd_icm = nd, Lcoh = Lcoh0, E_icm = E_GeV, B_icm = B0, g_icm = g0, m_icm = m0,
              n_icm = n0, xi_icm = g0 * B0, Psin_icm = 0, T1_icm = zeros, T2_icm = zeros,
              T3_icm = zeros, Un_icm = zeros, Dperp = 0, Dpar = 0, Dag = 0, Da = 0, alph = 0,
              Dosc = 0, EW1 = 0, EW2 = 0, EW3 = 0\<rparr>)"

definition setDeltas ::
  "collaborators \<Rightarrow> 'a PhotALPs_ICM_scheme \<Rightarrow> error + 'a PhotALPs_ICM_scheme" where
  \<comment> \<open>\<open>__setDeltas\<close>; the quotient under \<open>arctan\<close> is one of floats and raises on a zero
      denominator (numpy scalars would give \<open>inf\<close> or \<open>nan\<close> there: every theorem below
      assumes a nonzero denominator)\<close>
  "setDeltas ext self =
    (let self = self\<lparr>Dperp := Delta_pl_kpc ext (n_icm self) (E_icm self)
                                + 2 * Delta_QED_kpc ext (B_icm self) (E_icm self)\<rparr>;
         self = self\<lparr>Dpar := Delta_pl_kpc ext (n_icm self) (E_icm self)
                               + 3.5 * Delta_QED_kpc ext (B_icm self) (E_icm self)\<rparr>;
         self = self\<lparr>Dag := Delta_ag_kpc ext (g_icm self) (B_icm self)\<rparr>;
         self = self\<lparr>Da := Delta_a_kpc ext (m_icm self) (E_icm self)\<rparr>
     in case fdiv (2 * Dag self) (Dpar self - Da self) of
          Inl err \<Rightarrow> Inl err
        | Inr q \<Rightarrow>
           (let self = self\<lparr>alph := 0.5 * arctan q\<rparr>;
                self = self\<lparr>Dosc := sqrt ((Dpar self - Da self)\<^sup>2 + 4 * (Dag self)\<^sup>2)\<rparr>
            in Inr self))"

definition setEW ::
  "collaborators \<Rightarrow> 'a PhotALPs_ICM_scheme \<Rightarrow> error + 'a PhotALPs_ICM_scheme" where
  "setEW ext self =
    (case setDeltas ext self of
       Inl err \<Rightarrow> Inl err
     | Inr self \<Rightarrow>
        (let self = self\<lparr>EW1 := Dperp self\<rparr>;
             self = self\<lparr>EW2 := 0.5 * (Dpar self + Da self - Dosc self)\<rparr>;
             self = self\<lparr>EW3 := 0.5 * (Dpar self + Da self + Dosc self)\<rparr>
         in Inr self))"

definition setT1n :: "'a PhotALPs_ICM_scheme \<Rightarrow> 'a PhotALPs_ICM_scheme" where
  "setT1n self =
    (let c = cos (Psin_icm self);
         s = sin (Psin_icm self);
         self = self\<lparr>T1_icm := (T1_icm self)\<lparr>e00 := complex_of_real (c * c)\<rparr>\<rparr>;
         self = self\<lparr>T1_icm := (T1_icm self)\<lparr>e01 := complex_of_real (- 1 * c * s)\<rparr>\<rparr>;
         self = self\<lparr>T1_icm := (T1_icm self)\<lparr>e10 := e01 (T1_icm self)\<rparr>\<rparr>;
         self = self\<lparr>T1_icm := (T1_icm self)\<lparr>e11 := complex_of_real (s * s)\<rparr>\<rparr>
     in self)"

definition setT2n :: "'a PhotALPs_ICM_scheme \<Rightarrow> 'a PhotALPs_ICM_scheme" where
  "setT2n self =
    (let c = cos (Psin_icm self);
         s = sin (Psin_icm self);
         ca = cos (alph self);
         sa = sin (alph self);
         self = self\<lparr>T2_icm := (T2_icm self)\<lparr>e00 := complex_of_real (s * s * sa * sa)\<rparr>\<rparr>;
         self = self\<lparr>T2_icm := (T2_icm self)\<lparr>e01 := complex_of_real (s * c * sa * sa)\<rparr>\<rparr>;
         self = self\<lparr>T2_icm := (T2_icm self)\<lparr>e02 := complex_of_real (- 1 * s * sa * ca)\<rparr>\<rparr>;
         self = self\<lparr>T2_icm := (T2_icm self)\<lparr>e10 := e01 (T2_icm self)\<rparr>\<rparr>;
         self = self\<lparr>T2_icm := (T2_icm self)\<lparr>e11 := complex_of_real (c * c * sa * sa)\<rparr>\<rparr>;
         self = self\<lparr>T2_icm := (T2_icm self)\<lparr>e12 := complex_of_real (- 1 * c * ca * sa)\<rparr>\<rparr>;
         self = self\<lparr>T2_icm := (T2_icm self)\<lparr>e20 := e02 (T2_icm self)\<rparr>\<rparr>;
         self = self\<lparr>T2_icm := (T2_icm self)\<lparr>e21 := e12 (T2_icm self)\<rparr>\<rparr>;
         self = self\<lparr>T2_icm := (T2_icm self)\<lparr>e22 := complex_of_real (ca * ca)\<rparr>\<rparr>
     in self)"

definition setT3n :: "'a PhotALPs_ICM_scheme \<Rightarrow> 'a PhotALPs_ICM_scheme" where
  "setT3n self =
    (let c = cos (Psin_icm self);
         s = sin (Psin_icm self);
         ca = cos (alph self);
         sa = sin (alph self);
         self = self\<lparr>T3_icm := (T3_icm self)\<lparr>e00 := complex_of_real (s * s * ca * ca)\<rparr>\<rparr>;
         self = self\<lparr>T3_icm := (T3_icm self)\<lparr>e01 := complex_of_real (s * c * ca * ca)\<rparr>\<rparr>;
         self = self\<lparr>T3_icm := (T3_icm self)\<lparr>e02 := complex_of_real (s * sa * ca)\<rparr>\<rparr>;
         self = self\<lparr>T3_icm := (T3_icm self)\<lparr>e10 := e01 (T3_icm self)\<rparr>\<rparr>;
         self = self\<lparr>T3_icm := (T3_icm self)\<lparr>e11 := complex_of_real (c * c * ca * ca)\<rparr>\<rparr>;
         self = self\<lparr>T3_icm := (T3_icm self)\<lparr>e12 := complex_of_real (c * sa * ca)\<rparr>\<rparr>;
         self = self\<lparr>T3_icm := (T3_icm self)\<lparr>e20 := e02 (T3_icm self)\<rparr>\<rparr>;
         self = self\<lparr>T3_icm := (T3_icm self)\<lparr>e21 := e12 (T3_icm self)\<rparr>\<rparr>;
         self = self\<lparr>T3_icm := (T3_icm self)\<lparr>e22 := complex_of_real (sa * sa)\<rparr>\<rparr>
     in self)"

definition setUn :: "'a PhotALPs_ICM_scheme \<Rightarrow> 'a PhotALPs_ICM_scheme" where
  "setUn self =
    self\<lparr>Un_icm :=
      madd (madd (smul (exp (1 * \<i> * complex_of_real (EW1 self) * complex_of_real (Lcoh self)))
                       (T1_icm self))
                 (smul (exp (1 * \<i> * complex_of_real (EW2 self) * complex_of_real (Lcoh self)))
                       (T2_icm self)))
           (smul (exp (1 * \<i> * complex_of_real (EW3 self) * complex_of_real (Lcoh self)))
                 (T3_icm self))\<rparr>"

definition SetDomainN_ICM ::
  "collaborators \<Rightarrow> 'a PhotALPs_ICM_scheme \<Rightarrow> error + 'a PhotALPs_ICM_scheme" where
  \<comment> \<open>\<open>PhotALPs_ICM.SetDomainN\<close>; the matrix it returns is \<open>Un_icm\<close> of the new state\<close>
  "SetDomainN_ICM ext self =
    (case setEW ext self of
       Inl err \<Rightarrow> Inl err
     | Inr self \<Rightarrow> Inr (setUn (setT3n (setT2n (setT1n self)))))"

subsection \<open>class PhotALPs_GMF: conversion in the galactic magnetic field\<close>

definition pertubation :: real where
  \<comment> \<open>limit for perturbation theory to be valid\<close>
  "pertubation = 0.10"

text \<open>
  PhotALPs_GMF inherits from PhotALPs_ICM: the record extends the one of the base
  class. The attributes \<open>l\<close>, \<open>b\<close> and \<open>d\<close> carry the suffix \<open>_gmf\<close>.
\<close>

record PhotALPs_GMF = PhotALPs_ICM +
  l_gmf :: real
  b_gmf :: real
  smax :: real
  pol_t :: real
  pol_u :: real
  rho_max :: real
  zmax :: real
  galactic :: real
  d_gmf :: real

definition PhotALPs_GMF_init ::
  "real \<Rightarrow> real \<Rightarrow> real \<Rightarrow> real \<Rightarrow> real \<Rightarrow> real \<Rightarrow> real \<Rightarrow> real \<Rightarrow> real \<Rightarrow> real \<Rightarrow> real
     \<Rightarrow> error + PhotALPs_GMF" where
  \<comment> \<open>\<open>__init__\<close>; \<open>h\<close> is the constant of \<open>eblstud.misc.constants\<close> in the default
      \<open>r_abell = 1500.*h\<close> of the base class\<close>
  "PhotALPs_GMF_init h pol_t0 pol_u0 g0 m0 n0 galactic0 rho_max0 zmax0 d0 Lcoh0 =
    (case PhotALPs_ICM_init Lcoh0 1 (1500 * h) 1000 g0 m0 n0 of
       Inl err \<Rightarrow> Inl err
     | Inr base \<Rightarrow>
         Inr ((PhotALPs_ICM.extend base
                (PhotALPs_GMF.fields 0 0 0 pol_t0 pol_u0 rho_max0 zmax0 galactic0 d0))
              \<lparr>E_icm := 0\<rparr>))"

definition set_coordinates :: "collaborators \<Rightarrow> real \<Rightarrow> real \<Rightarrow> PhotALPs_GMF \<Rightarrow> PhotALPs_GMF" where
  \<comment> \<open>the returned triple \<open>(l, b, smax)\<close> is read off the new state\<close>
  "set_coordinates ext ra dec self =
    (let lb = wcs_transform ext ra dec;
         self = self\<lparr>l_gmf := fst lb\<rparr>;
         self = self\<lparr>b_gmf := snd lb\<rparr>;
         d = d_gmf self
     in if galactic self < 0 then
          (let cl = cos (l_gmf self);
               cb = cos (b_gmf self);
               sb = sin (b_gmf self)
           in self\<lparr>smax := min (zmax self / \<bar>sb\<bar>)
                                (1 / \<bar>cb\<bar> * (- d * cl
                                   + sqrt (d\<^sup>2 + cl\<^sup>2 - d\<^sup>2 * cb + (rho_max self)\<^sup>2)))\<rparr>)
        else self\<lparr>smax := galactic self\<rparr>)"

definition vadd :: "vec3 \<Rightarrow> vec3 \<Rightarrow> vec3" where
  "vadd u v = (fst u + fst v, fst (snd u) + fst (snd v), snd (snd u) + snd (snd v))"

definition Bgmf_calc ::
  "collaborators \<Rightarrow> real \<Rightarrow> real \<Rightarrow> real \<Rightarrow> PhotALPs_GMF \<Rightarrow> vec3 \<times> real" where
  \<comment> \<open>\<open>Bdisk\<close>, \<open>Bhalo\<close> and \<open>BX\<close> stand for the first component of what the field model
      returns\<close>
  "Bgmf_calc ext s l_arg b_arg self =
    (let lg = (if l_arg = 0 then l_gmf self else l_arg);
         bg = (if b_arg = 0 then b_gmf self else b_arg);
         rho = rho_HC2GC ext s lg bg (d_gmf self);
         phi = phi_HC2GC ext s lg bg (d_gmf self);
         zz = z_HC2GC ext s lg bg (d_gmf self);
         Bv = Bdisk ext rho phi zz;
         Bv = vadd Bv (Bhalo ext rho zz);
         Bv = vadd Bv (BX ext rho zz);
         Babs = sqrt ((fst Bv)\<^sup>2 + (fst (snd Bv))\<^sup>2 + (snd (snd Bv))\<^sup>2)
     in (Bv, Babs))"

definition py_int :: "real \<Rightarrow> int" where
  \<comment> \<open>\<open>int(x)\<close> of a finite float: truncation towards zero\<close>
  "py_int x = (if 0 \<le> x then \<lfloor>x\<rfloor> else \<lceil>x\<rceil>)"

definition linspace :: "real \<Rightarrow> real \<Rightarrow> int \<Rightarrow> bool \<Rightarrow> error + real list" where
  \<comment> \<open>\<open>np.linspace(start, stop, num, endpoint)\<close>; a negative \<open>num\<close> raises ValueError, as
      in current numpy\<close>
  "linspace start stop num endpoint =
    (if num < 0 then Inl ValueError
     else
       (let dv = (if endpoint then num - 1 else num);
            delta = stop - start
        in if 0 < dv
           then Inr (map (\<lambda>i. real i * (delta / real_of_int dv) + start) [0..<nat num])
           else Inr (map (\<lambda>i. real i * delta + start) [0..<nat num])))"

text \<open>
  One value for each call of \<open>warnings.warn\<close>, with the two numbers of its message: the
  coupling term and the sample. The filters of the \<open>warnings\<close> module are outside the
  model.
\<close>

datatype warning = Large_Delta_ag_t real real | Large_Delta_ag_u real real

definition los_sample ::
  "collaborators \<Rightarrow> PhotALPs_GMF \<Rightarrow> real \<Rightarrow> complex \<times> complex \<times> warning list" where
  \<comment> \<open>the body of the loop of \<open>integrate_los\<close> at the sample \<open>s\<close>: the two kernel values
      and the warnings it emits, in order\<close>
  "los_sample ext self s =
    (let BB = Bgmf_calc ext s 0 0 self;
         Bproj = GC2HCproj ext (fst BB) s (l_gmf self) (b_gmf self) (d_gmf self);
         Bt = fst (snd Bproj);
         Bu = snd (snd Bproj);
         Btrans_abs = sqrt (Bt\<^sup>2 + Bu\<^sup>2);
         Delta_ag_t = Delta_ag_kpc ext (g_icm self) Bt;
         Delta_ag_u = Delta_ag_kpc ext (g_icm self) Bu;
         w1 = (if Delta_ag_t > pertubation then [Large_Delta_ag_t Delta_ag_t s] else []);
         w2 = (if Delta_ag_u > pertubation then [Large_Delta_ag_u Delta_ag_u s] else []);
         Delta_a = Delta_a_kpc ext (m_icm self) (E_icm self);
         Delta_perp = Delta_pl_kpc ext (n_icm self) (E_icm self)
                        + 2 * Delta_QED_kpc ext Btrans_abs (E_icm self);
         Delta_par = Delta_pl_kpc ext (n_icm self) (E_icm self)
                        + 3.5 * Delta_QED_kpc ext Btrans_abs (E_icm self)
     in (complex_of_real Delta_ag_t * exp (1 * \<i> * complex_of_real s * complex_of_real (Delta_a - Delta_perp)),
         complex_of_real Delta_ag_u * exp (1 * \<i> * complex_of_real s * complex_of_real (Delta_a - Delta_par)),
         w1 @ w2))"

fun los_loop ::
  "collaborators \<Rightarrow> PhotALPs_GMF \<Rightarrow> real list \<Rightarrow> complex list \<times> complex list \<times> warning list" where
  "los_loop ext self [] = ([], [], [])"
| "los_loop ext self (s # sa) =
    (let r = los_sample ext self s;
         rs = los_loop ext self sa
     in (fst r # fst rs, fst (snd r) # fst (snd rs), snd (snd r) @ snd (snd rs)))"

definition complex_gt :: "complex \<Rightarrow> real \<Rightarrow> bool" where
  \<comment> \<open>numpy's greater-than on a complex array against a float: real parts first, then imaginary\<close>
  "complex_gt w x = (x < Re w \<or> (Re w = x \<and> 0 < Im w))"

definition select :: "bool list \<Rightarrow> 'a list \<Rightarrow> 'a list" where
  \<comment> \<open>boolean-mask indexing \<open>xs[mask]\<close>\<close>
  "select msk xs = map snd (filter fst (zip msk xs))"

definition integrate_los ::
  "collaborators \<Rightarrow> PhotALPs_GMF \<Rightarrow> error + ((real \<times> real \<times> real) \<times> warning list)" where
  \<comment> \<open>returns the triple and the warnings emitted on the way; a zero \<open>Lcoh\<close> raises\<close>
  "integrate_los ext self =
    (case fdiv (smax self) (Lcoh self) of
       Inl err \<Rightarrow> Inl err
     | Inr q \<Rightarrow>
        (case linspace 0 (smax self) (py_int q) True of
           Inl err \<Rightarrow> Inl err
         | Inr sa \<Rightarrow>
            (let ks = los_loop ext self sa;
                 kernel_t = fst ks;
                 kernel_u = fst (snd ks);
                 m_t = map (\<lambda>k. complex_gt (k * cnj k) (1 / 10 ^ 20)) kernel_t;
                 m_u = map (\<lambda>k. complex_gt (k * cnj k) (1 / 10 ^ 20)) kernel_u;
                 I_t = (if count_list m_t True \<noteq> 0
                        then complex_of_real (simps ext (map Re (select m_t kernel_t)) (select m_t sa))
                             + 1 * \<i> * complex_of_real (simps ext (map Im (select m_t kernel_t)) (select m_t sa))
                        else 0);
                 I_u = (if count_list m_u True \<noteq> 0
                        then complex_of_real (simps ext (map Re (select m_u kernel_u)) (select m_u sa))
                             + 1 * \<i> * complex_of_real (simps ext (map Im (select m_u kernel_u)) (select m_u sa))
                        else 0)
             in Inr ((Re (I_t * cnj I_t), Re (I_u * cnj I_u), Re (cnj I_u * I_t)),
                     snd (snd ks)))))"

definition Pag_setup ::
  "collaborators \<Rightarrow> real \<Rightarrow> real \<Rightarrow> real \<Rightarrow> real \<Rightarrow> real \<Rightarrow> PhotALPs_GMF \<Rightarrow> PhotALPs_GMF" where
  \<comment> \<open>the statements of \<open>Pag\<close> before the call of \<open>integrate_los\<close>\<close>
  "Pag_setup ext E ra dec pol_t_arg pol_u_arg self =
    (let self = set_coordinates ext ra dec self;
         self = self\<lparr>E_icm := E\<rparr>;
         self = (if pol_t_arg > 0 then self\<lparr>pol_t := pol_t_arg\<rparr> else self);
         self = (if pol_u_arg > 0 then self\<lparr>pol_u := pol_u_arg\<rparr> else self)
     in self)"

definition Pag ::
  "collaborators \<Rightarrow> real \<Rightarrow> real \<Rightarrow> real \<Rightarrow> real \<Rightarrow> real \<Rightarrow> PhotALPs_GMF
     \<Rightarrow> error + (real \<times> PhotALPs_GMF \<times> warning list)" where
  \<comment> \<open>returns the probability, the object after the call and the warnings emitted\<close>
  "Pag ext E ra dec pol_t_arg pol_u_arg self =
    (let self = Pag_setup ext E ra dec pol_t_arg pol_u_arg self
     in case integrate_los ext self of
          Inl err \<Rightarrow> Inl err
        | Inr r \<Rightarrow>
           (let It = fst (fst r);
                Iu = fst (snd (fst r))
            in Inr ((pol_t self)\<^sup>2 * It + (pol_u self)\<^sup>2 * Iu, self, snd r)))"

definition Pag_TM_step ::
  "collaborators \<Rightarrow> cmat \<times> PhotALPs_GMF \<Rightarrow> real \<Rightarrow> error + (cmat \<times> PhotALPs_GMF)" where
  \<comment> \<open>the body of the loop of \<open>Pag_TM\<close> at the sample \<open>s\<close>, on the accumulator \<open>U\<close> and
      the object\<close>
  "Pag_TM_step ext acc s =
    (let U = fst acc;
         self = snd acc;
         BB = Bgmf_calc ext s 0 0 self;
         Bproj = GC2HCproj ext (fst BB) s (l_gmf self) (b_gmf self) (d_gmf self);
         Bt = fst (snd Bproj);
         Bu = snd (snd Bproj);
         self = self\<lparr>B_icm := sqrt (Bt\<^sup>2 + Bu\<^sup>2)\<rparr>;
         self = (if B_icm self \<noteq> 0
                 then (let self = self\<lparr>Psin_icm := arccos (Bt / B_icm self)\<rparr>
                       in if Bu < 0 then self\<lparr>Psin_icm := 2 * pi - Psin_icm self\<rparr> else self)
                 else self\<lparr>Psin_icm := 0\<rparr>)
     in case SetDomainN_ICM ext self of
          Inl err \<Rightarrow> Inl err
        | Inr self \<Rightarrow> Inr (dot U (Un_icm self), self))"

fun Pag_TM_loop ::
  "collaborators \<Rightarrow> real list \<Rightarrow> cmat \<times> PhotALPs_GMF \<Rightarrow> error + (cmat \<times> PhotALPs_GMF)" where
  "Pag_TM_loop ext [] acc = Inr acc"
| "Pag_TM_loop ext (s # sa) acc =
    (case Pag_TM_step ext acc s of
       Inl err \<Rightarrow> Inl err
     | Inr acc' \<Rightarrow> Pag_TM_loop ext sa acc')"

datatype TM_result = Channels complex complex complex | Final complex

definition Pag_TM ::
  "collaborators \<Rightarrow> real \<Rightarrow> real \<Rightarrow> real \<Rightarrow> cmat \<Rightarrow> cmat option \<Rightarrow> PhotALPs_GMF
     \<Rightarrow> error + (TM_result \<times> PhotALPs_GMF)" where
  \<comment> \<open>returns \<open>(Pt, Pu, Pa)\<close>, or the single probability for \<open>pol_final\<close>, and the object
      after the call; a zero \<open>Lcoh\<close> raises; \<open>pol_final == None\<close> is false for an array\<close>
  "Pag_TM ext E ra dec pol pol_final self =
    (let self = set_coordinates ext ra dec self;
         self = self\<lparr>E_icm := E\<rparr>
     in case fdiv (smax self) (Lcoh self) of
          Inl err \<Rightarrow> Inl err
        | Inr q \<Rightarrow>
           (case linspace (smax self) 0 (py_int q) False of
              Inl err \<Rightarrow> Inl err
            | Inr sa \<Rightarrow>
               (let U = ident;
                    pol_t_m = zeros\<lparr>e00 := e00 zeros + 1\<rparr>;
                    pol_u_m = zeros\<lparr>e11 := e11 zeros + 1\<rparr>;
                    pol_unpol = smul 0.5 (madd pol_t_m pol_u_m);
                    pol_a_m = zeros\<lparr>e22 := e22 zeros + 1\<rparr>
                in case Pag_TM_loop ext sa (U, self) of
                     Inl err \<Rightarrow> Inl err
                   | Inr acc \<Rightarrow>
                      (let U = fst acc;
                           self = snd acc
                       in case pol_final of
                            None \<Rightarrow>
                              Inr (Channels
                                    (trace (dot pol_t_m (dot U (dot pol (dagger U)))))
                                    (trace (dot pol_u_m (dot U (dot pol (dagger U)))))
                                    (trace (dot pol_a_m (dot U (dot pol (dagger U))))),
                                   self)
                          | Some pf \<Rightarrow>
                              Inr (Final (trace (dot pf (dot U (dot pol (dagger U))))), self)))))"

section \<open>Derived notions\<close>

text \<open>
  The definitions of this section are not functions of the source. They name the values
  that the statements below talk about: the values of local variables of the source at a
  given input, the part of an object a method leaves alone, and the property of being
  unitary.
\<close>

subsection \<open>Matrices\<close>

text \<open>
  \<open>T1_frame M\<close>: the five entries of \<open>T1\<close> that no method assigns are zero, as
  \<open>np.zeros\<close> leaves them in \<open>__init__\<close>. \<open>proj1\<close>, \<open>proj2\<close> and \<open>proj3\<close> are the
  three matrices that \<open>__setT1n\<close>, \<open>__setT2n\<close> and \<open>__setT3n\<close> write, as functions of the
  cosines and sines of the two angles.
\<close>

definition T1_frame :: "cmat \<Rightarrow> bool" where
  "T1_frame M \<longleftrightarrow> e02 M = 0 \<and> e12 M = 0 \<and> e20 M = 0 \<and> e21 M = 0 \<and> e22 M = 0"

definition unitary :: "cmat \<Rightarrow> bool" where
  "unitary U \<longleftrightarrow> dot U (dagger U) = ident \<and> dot (dagger U) U = ident"

definition proj1 :: "complex \<Rightarrow> complex \<Rightarrow> cmat" where
  "proj1 c s = \<lparr>e00 = c * c, e01 = - (c * s), e02 = 0,
                e10 = - (c * s), e11 = s * s, e12 = 0,
                e20 = 0, e21 = 0, e22 = 0\<rparr>"

definition proj2 :: "complex \<Rightarrow> complex \<Rightarrow> complex \<Rightarrow> complex \<Rightarrow> cmat" where
  "proj2 c s ca sa = \<lparr>e00 = s * s * sa * sa, e01 = s * c * sa * sa, e02 = - (s * sa * ca),
                      e10 = s * c * sa * sa, e11 = c * c * sa * sa, e12 = - (c * ca * sa),
                      e20 = - (s * sa * ca), e21 = - (c * ca * sa), e22 = ca * ca\<rparr>"

definition proj3 :: "complex \<Rightarrow> complex \<Rightarrow> complex \<Rightarrow> complex \<Rightarrow> cmat" where
  "proj3 c s ca sa = \<lparr>e00 = s * s * ca * ca, e01 = s * c * ca * ca, e02 = s * sa * ca,
                      e10 = s * c * ca * ca, e11 = c * c * ca * ca, e12 = c * sa * ca,
                      e20 = s * sa * ca, e21 = c * sa * ca, e22 = sa * sa\<rparr>"

subsection \<open>Local values of PhotALPs.SetDomainN\<close>

text \<open>
  The denominator of the domain length, the domain length \<open>self.Ln\<close>, \<open>difftau\<close>,
  \<open>mfn\<close>, \<open>self.dn\<close> and \<open>self.Dn\<close> as \<open>SetDomainN\<close> computes them from the object and
  the domain number; \<open>domain_prepared\<close> is the object when \<open>SetT1n\<close> is called, and
  \<open>T_set\<close> the three calls that follow.
\<close>

definition Ln_den :: "PhotALPs \<Rightarrow> int \<Rightarrow> real" where
  "Ln_den self n = 1 + 1.45 * (real_of_int n - 1) * dz self"

definition Ln_val :: "PhotALPs \<Rightarrow> int \<Rightarrow> real" where
  "Ln_val self n = 4290 * dz self / Ln_den self n"

definition difftau_val :: "(real \<Rightarrow> real \<Rightarrow> real) \<Rightarrow> PhotALPs \<Rightarrow> int \<Rightarrow> real" where
  "difftau_val od self n =
     od (real_of_int n * dz self) (E0 self) - od ((real_of_int n - 1) * dz self) (E0 self)"

definition mfn_val :: "(real \<Rightarrow> real \<Rightarrow> real) \<Rightarrow> PhotALPs \<Rightarrow> int \<Rightarrow> real" where
  "mfn_val od self n =
     (if difftau_val od self n \<noteq> 0 then Ln_val self n / difftau_val od self n
      else Ln_val self n / (1 / 10 ^ 20))"

definition dn_val :: "(real \<Rightarrow> real \<Rightarrow> real) \<Rightarrow> PhotALPs \<Rightarrow> int \<Rightarrow> real" where
  "dn_val od self n = 0.11 * xi self * mfn_val od self n * (1 + (real_of_int n - 1) * dz self)\<^sup>2"

definition Dn_val :: "(real \<Rightarrow> real \<Rightarrow> real) \<Rightarrow> PhotALPs \<Rightarrow> int \<Rightarrow> complex" where
  "Dn_val od self n = csqrt (1 - 4 * complex_of_real ((dn_val od self n)\<^sup>2) + 0 * \<i>)"

definition domain_prepared :: "(real \<Rightarrow> real \<Rightarrow> real) \<Rightarrow> int \<Rightarrow> PhotALPs \<Rightarrow> PhotALPs" where
  "domain_prepared od n self =
     self\<lparr>Ln := Some (Ln_val self n), mfn_print := mfn_val od self n, dtau := difftau_val od self n,
          dn := dn_val od self n, Dn := Dn_val od self n,
          EW1n := - 0.5 / mfn_val od self n,
          EW2n := complex_of_real (- 0.25 / mfn_val od self n) * (1 + Dn_val od self n),
          EW3n := complex_of_real (- 0.25 / mfn_val od self n) * (1 - Dn_val od self n)\<rparr>"

definition T_set :: "PhotALPs \<Rightarrow> PhotALPs" where
  "T_set self = SetT3n (SetT2n (SetT1n self))"

subsection \<open>Local values of PhotALPs_ICM.SetDomainN and of the loop of Pag_TM\<close>

text \<open>
  The four Deltas and \<open>Dosc\<close> as \<open>__setDeltas\<close> computes them, and the object after
  \<open>__setEW\<close>. For the loop of \<open>Pag_TM\<close>: the projected field at a sample, the transverse
  field strength \<open>self.B\<close> and the angle \<open>self.Psin\<close> the loop body sets, the object on
  which it calls \<open>SetDomainN\<close>, and the matrix that call returns (\<open>zeros\<close> where it
  raises). \<open>mixing_defined\<close> says that the quotient under \<open>arctan\<close> has a nonzero
  denominator at a sample; \<open>static_eq\<close> relates two objects that agree on the attributes
  the loop never assigns. \<open>start_state\<close> is the object when the sample grid is built,
  \<open>TM_grid\<close> the grid (empty where \<open>np.linspace\<close> raises), \<open>Pag_TM_value\<close> the value
  \<open>Pag_TM\<close> returns.
\<close>

definition Dperp_val :: "collaborators \<Rightarrow> 'a PhotALPs_ICM_scheme \<Rightarrow> real" where
  "Dperp_val ext self = Delta_pl_kpc ext (n_icm self) (E_icm self)
                          + 2 * Delta_QED_kpc ext (B_icm self) (E_icm self)"

definition Dpar_val :: "collaborators \<Rightarrow> 'a PhotALPs_ICM_scheme \<Rightarrow> real" where
  "Dpar_val ext self = Delta_pl_kpc ext (n_icm self) (E_icm self)
                          + 3.5 * Delta_QED_kpc ext (B_icm self) (E_icm self)"

definition Dag_val :: "collaborators \<Rightarrow> 'a PhotALPs_ICM_scheme \<Rightarrow> real" where
  "Dag_val ext self = Delta_ag_kpc ext (g_icm self) (B_icm self)"

definition Da_val :: "collaborators \<Rightarrow> 'a PhotALPs_ICM_scheme \<Rightarrow> real" where
  "Da_val ext self = Delta_a_kpc ext (m_icm self) (E_icm self)"

definition Dosc_val :: "collaborators \<Rightarrow> 'a PhotALPs_ICM_scheme \<Rightarrow> real" where
  "Dosc_val ext self = sqrt ((Dpar_val ext self - Da_val ext self)\<^sup>2 + 4 * (Dag_val ext self)\<^sup>2)"

definition deltas_prepared :: "collaborators \<Rightarrow> 'a PhotALPs_ICM_scheme \<Rightarrow> 'a PhotALPs_ICM_scheme" where
  "deltas_prepared ext self =
     self\<lparr>Dperp := Dperp_val ext self, Dpar := Dpar_val ext self, Dag := Dag_val ext self,
          Da := Da_val ext self,
          alph := 0.5 * arctan (2 * Dag_val ext self / (Dpar_val ext self - Da_val ext self)),
          Dosc := Dosc_val ext self,
          EW1 := Dperp_val ext self,
          EW2 := 0.5 * (Dpar_val ext self + Da_val ext self - Dosc_val ext self),
          EW3 := 0.5 * (Dpar_val ext self + Da_val ext self + Dosc_val ext self)\<rparr>"

definition field_proj :: "collaborators \<Rightarrow> PhotALPs_GMF \<Rightarrow> real \<Rightarrow> vec3" where
  "field_proj ext self s =
     GC2HCproj ext (fst (Bgmf_calc ext s 0 0 self)) s (l_gmf self) (b_gmf self) (d_gmf self)"

definition Bt_val :: "collaborators \<Rightarrow> PhotALPs_GMF \<Rightarrow> real \<Rightarrow> real" where
  "Bt_val ext self s = fst (snd (field_proj ext self s))"

definition Bu_val :: "collaborators \<Rightarrow> PhotALPs_GMF \<Rightarrow> real \<Rightarrow> real" where
  "Bu_val ext self s = snd (snd (field_proj ext self s))"

definition Btrans_val :: "collaborators \<Rightarrow> PhotALPs_GMF \<Rightarrow> real \<Rightarrow> real" where
  "Btrans_val ext self s = sqrt ((Bt_val ext self s)\<^sup>2 + (Bu_val ext self s)\<^sup>2)"

definition Psin_val :: "collaborators \<Rightarrow> PhotALPs_GMF \<Rightarrow> real \<Rightarrow> real" where
  "Psin_val ext self s =
     (if Btrans_val ext self s \<noteq> 0
      then (if Bu_val ext self s < 0
            then 2 * pi - arccos (Bt_val ext self s / Btrans_val ext self s)
            else arccos (Bt_val ext self s / Btrans_val ext self s))
      else 0)"

definition domain_state :: "collaborators \<Rightarrow> PhotALPs_GMF \<Rightarrow> real \<Rightarrow> PhotALPs_GMF" where
  "domain_state ext self s = self\<lparr>B_icm := Btrans_val ext self s, Psin_icm := Psin_val ext self s\<rparr>"

definition domain_matrix :: "collaborators \<Rightarrow> PhotALPs_GMF \<Rightarrow> real \<Rightarrow> cmat" where
  "domain_matrix ext self s =
     (case SetDomainN_ICM ext (domain_state ext self s) of Inl err \<Rightarrow> zeros | Inr st \<Rightarrow> Un_icm st)"

definition Un_of :: "collaborators \<Rightarrow> PhotALPs_GMF \<Rightarrow> real \<Rightarrow> cmat" where
  "Un_of ext self s =
     (let st = deltas_prepared ext (domain_state ext self s);
          cp = complex_of_real (cos (Psin_icm st));
          sp = complex_of_real (sin (Psin_icm st));
          ca = complex_of_real (cos (alph st));
          sa = complex_of_real (sin (alph st))
      in madd (madd (smul (exp (1 * \<i> * complex_of_real (EW1 st) * complex_of_real (Lcoh st))) (proj1 cp sp))
                    (smul (exp (1 * \<i> * complex_of_real (EW2 st) * complex_of_real (Lcoh st))) (proj2 cp sp ca sa)))
              (smul (exp (1 * \<i> * complex_of_real (EW3 st) * complex_of_real (Lcoh st))) (proj3 cp sp ca sa)))"

definition mixing_defined :: "collaborators \<Rightarrow> PhotALPs_GMF \<Rightarrow> real \<Rightarrow> bool" where
  "mixing_defined ext self s \<longleftrightarrow>
     Dpar_val ext (domain_state ext self s) - Da_val ext (domain_state ext self s) \<noteq> 0"

definition static_eq :: "PhotALPs_GMF \<Rightarrow> PhotALPs_GMF \<Rightarrow> bool" where
  "static_eq a b \<longleftrightarrow>
     n_icm a = n_icm b \<and> m_icm a = m_icm b \<and> g_icm a = g_icm b \<and> E_icm a = E_icm b \<and>
     Lcoh a = Lcoh b \<and> l_gmf a = l_gmf b \<and> b_gmf a = b_gmf b \<and> d_gmf a = d_gmf b"

definition start_state :: "collaborators \<Rightarrow> real \<Rightarrow> real \<Rightarrow> real \<Rightarrow> PhotALPs_GMF \<Rightarrow> PhotALPs_GMF" where
  "start_state ext E ra dec self = (set_coordinates ext ra dec self)\<lparr>E_icm := E\<rparr>"




subsection \<open>Local values of integrate_los\<close>

text \<open>
  The two coupling terms \<open>Delta_ag_t\<close> and \<open>Delta_ag_u\<close> at a sample, and the
  warnings the loop body emits there.
\<close>

definition coupling_t :: "collaborators \<Rightarrow> PhotALPs_GMF \<Rightarrow> real \<Rightarrow> real" where
  "coupling_t ext self s = Delta_ag_kpc ext (g_icm self) (Bt_val ext self s)"

definition coupling_u :: "collaborators \<Rightarrow> PhotALPs_GMF \<Rightarrow> real \<Rightarrow> real" where
  "coupling_u ext self s = Delta_ag_kpc ext (g_icm self) (Bu_val ext self s)"

definition sample_warnings :: "collaborators \<Rightarrow> PhotALPs_GMF \<Rightarrow> real \<Rightarrow> warning list" where
  "sample_warnings ext self s =
     (if pertubation < coupling_t ext self s then [Large_Delta_ag_t (coupling_t ext self s) s] else []) @
     (if pertubation < coupling_u ext self s then [Large_Delta_ag_u (coupling_u ext self s) s] else [])"

section \<open>The formulas of the specification\<close>

text \<open>
  The closed forms as the specification writes them, to be compared with what the code
  computes, and the norm in which the specification measures the distance of
  \<open>U U\<^sup>\<dagger>\<close> from the identity (the Frobenius norm).
\<close>

definition spec_EW1 :: "real \<Rightarrow> complex" where
  "spec_EW1 mfn = complex_of_real (- 1 / (2 * mfn))"

definition spec_EW2 :: "real \<Rightarrow> complex \<Rightarrow> complex" where
  "spec_EW2 mfn D = complex_of_real (- 1 / (4 * mfn)) * (1 + D)"

definition spec_EW3 :: "real \<Rightarrow> complex \<Rightarrow> complex" where
  "spec_EW3 mfn D = complex_of_real (- 1 / (4 * mfn)) * (1 - D)"

definition spec_D :: "real \<Rightarrow> complex" where
  "spec_D d = csqrt (1 - 4 * (complex_of_real d)\<^sup>2)"

definition spec_Un :: "complex \<Rightarrow> complex \<Rightarrow> complex \<Rightarrow> real \<Rightarrow> cmat \<Rightarrow> cmat \<Rightarrow> cmat \<Rightarrow> cmat" where
  "spec_Un E1 E2 E3 L A1 A2 A3 =
     madd (madd (smul (exp (E1 * complex_of_real L)) A1) (smul (exp (E2 * complex_of_real L)) A2))
          (smul (exp (E3 * complex_of_real L)) A3)"


section \<open>Example objects\<close>

text \<open>
  Concrete collaborators and objects, for the witnesses and the counterexamples. The
  Delta provider has the dependence on its arguments of the physical terms, with
  constants chosen so that the phases are multiples of \<open>pi\<close>; the field model lies along
  the line of sight, of strength 1, turned at \<open>rho = 1\<close>; the coordinate transformation
  and the projections are identities; a trapezoid rule stands for scipy's \<open>simps\<close>.
  \<open>ex_gmf\<close> is the object that \<open>__init__\<close> builds for a galactic source at 2 kpc with a
  coherence length of 1 kpc and no coupling, \<open>ex_gmf3\<close> the same for a source at 3 kpc
  with the coupling \<open>g = 1/5\<close>, \<open>ex_los\<close> that object once its coordinates and the energy 1 are
  set, and \<open>ex_start\<close> the object \<open>ex_gmf\<close> when \<open>Pag_TM\<close> builds its grid at the
  energy 1. \<open>ex_U1\<close> and \<open>ex_U2\<close> are the transfer matrices of its two domains. \<open>ex_igm\<close>
  is a PhotALPs object with domains of 5 Mpc at the energy 1, \<open>ex_tau\<close> an optical depth
  that grows with the redshift and \<open>ex_tau0\<close> one that vanishes.
\<close>

fun trapz :: "real list \<Rightarrow> real list \<Rightarrow> real" where
  "trapz (y0 # y1 # ys) (x0 # x1 # xs) = (x1 - x0) * (y0 + y1) / 2 + trapz (y1 # ys) (x1 # xs)"
| "trapz ys xs = 0"

definition ex_ext :: collaborators where
  "ex_ext =
    \<lparr>Delta_pl_kpc = (\<lambda>n E. - (4 * pi / 3) * n / E),
     Delta_QED_kpc = (\<lambda>B E. (2 * pi / 3) * E * B\<^sup>2),
     Delta_ag_kpc = (\<lambda>g B. g * B),
     Delta_a_kpc = (\<lambda>m E. - (m\<^sup>2) / E),
     wcs_transform = (\<lambda>ra dec. (ra, dec)),
     rho_HC2GC = (\<lambda>s l b d. s),
     phi_HC2GC = (\<lambda>s l b d. l),
     z_HC2GC = (\<lambda>s l b d. 0),
     Bdisk = (\<lambda>rho phi z. if rho = 1 then (0, 3 / 5, 4 / 5) else (0, 1, 0)),
     Bhalo = (\<lambda>rho z. (0, 0, 0)),
     BX = (\<lambda>rho z. (0, 0, 0)),
     GC2HCproj = (\<lambda>B s l b d. B),
     simps = trapz\<rparr>"

definition ex_gmf :: PhotALPs_GMF where
  "ex_gmf =
    \<lparr>Nd_icm = 1050, Lcoh = 1, E_icm = 0, B_icm = 1, g_icm = 0, m_icm = 0, n_icm = 1,
     xi_icm = 0, Psin_icm = 0, T1_icm = zeros, T2_icm = zeros, T3_icm = zeros, Un_icm = zeros,
     Dperp = 0, Dpar = 0, Dag = 0, Da = 0, alph = 0, Dosc = 0, EW1 = 0, EW2 = 0, EW3 = 0,
     l_gmf = 0, b_gmf = 0, smax = 0, pol_t = 3 / 5, pol_u = 4 / 5, rho_max = 20, zmax = 50,
     galactic = 2, d_gmf = - 8.5\<rparr>"

definition ex_gmf3 :: PhotALPs_GMF where
  "ex_gmf3 = ex_gmf\<lparr>g_icm := 1 / 5, galactic := 3\<rparr>"

definition ex_los :: PhotALPs_GMF where
  "ex_los = ex_gmf3\<lparr>smax := 3, E_icm := 1\<rparr>"

definition ex_start :: PhotALPs_GMF where
  "ex_start = start_state ex_ext 1 0 0 ex_gmf"


definition ex_U1 :: cmat where
  "ex_U1 = \<lparr>e00 = 1, e01 = 0, e02 = 0, e10 = 0, e11 = - 1, e12 = 0, e20 = 0, e21 = 0, e22 = 1\<rparr>"

definition ex_U2 :: cmat where
  "ex_U2 = \<lparr>e00 = - (7 / 25), e01 = - (24 / 25), e02 = 0,
            e10 = - (24 / 25), e11 = 7 / 25, e12 = 0,
            e20 = 0, e21 = 0, e22 = 1\<rparr>"

definition ex_igm :: PhotALPs where
  "ex_igm = (PhotALPs_init 5 1)\<lparr>E0 := 1\<rparr>"

definition ex_tau :: "real \<Rightarrow> real \<Rightarrow> real" where
  "ex_tau zz E = zz * E"

definition ex_tau0 :: "real \<Rightarrow> real \<Rightarrow> real" where
  "ex_tau0 zz E = 0"

section \<open>Matrix algebra\<close>

lemma dot_madd_left: "dot (madd A B) C = madd (dot A C) (dot B C)"
  by (simp add: dot_def madd_def algebra_simps)

lemma dot_madd_right: "dot A (madd B C) = madd (dot A B) (dot A C)"
  by (simp add: dot_def madd_def algebra_simps)

lemma dot_smul_left: "dot (smul a A) B = smul a (dot A B)"
  by (simp add: dot_def smul_def algebra_simps)

lemma dot_smul_right: "dot A (smul a B) = smul a (dot A B)"
  by (simp add: dot_def smul_def algebra_simps)

lemma dagger_madd: "dagger (madd A B) = madd (dagger A) (dagger B)"
  by (simp add: dagger_def madd_def)

lemma dagger_smul: "dagger (smul a A) = smul (cnj a) (dagger A)"
  by (simp add: dagger_def smul_def)

lemma smul_smul: "smul a (smul b A) = smul (a * b) A"
  by (simp add: smul_def algebra_simps)

lemma smul_zeros: "smul a zeros = zeros"
  by (simp add: smul_def zeros_def)

lemma smul_one: "smul 1 A = A"
  by (simp add: smul_def)

lemma madd_zeros_right: "madd A zeros = A"
  by (simp add: madd_def zeros_def)

lemma madd_zeros_left: "madd zeros A = A"
  by (simp add: madd_def zeros_def)

lemma dot_assoc: "dot (dot A B) C = dot A (dot B C)"
  by (simp add: dot_def algebra_simps)

lemma dagger_dot: "dagger (dot A B) = dot (dagger B) (dagger A)"
  by (simp add: dagger_def dot_def algebra_simps)

lemma dot_ident_left: "dot ident A = A"
  by (simp add: dot_def ident_def)


lemma dagger_ident: "dagger ident = ident"
  by (simp add: dagger_def ident_def)


lemma unitary_ident: "unitary ident"
  by (simp add: unitary_def dagger_ident dot_ident_left)

lemma unitary_dot:
  assumes "unitary A" and "unitary B"
  shows "unitary (dot A B)"
proof -
  have a: "dot A (dagger A) = ident" "dot (dagger A) A = ident"
    and b: "dot B (dagger B) = ident" "dot (dagger B) B = ident"
    using assms by (simp_all add: unitary_def)
  have "dot (dot A B) (dagger (dot A B)) = dot A (dot (dot B (dagger B)) (dagger A))"
    by (simp add: dagger_dot dot_assoc)
  also have "\<dots> = ident"
    by (simp add: a b dot_ident_left)
  finally have 1: "dot (dot A B) (dagger (dot A B)) = ident" .
  have "dot (dagger (dot A B)) (dot A B) = dot (dagger B) (dot (dot (dagger A) A) B)"
    by (simp add: dagger_dot dot_assoc)
  also have "\<dots> = ident"
    by (simp add: a b dot_ident_left)
  finally have 2: "dot (dagger (dot A B)) (dot A B) = ident" .
  show ?thesis using 1 2 by (simp add: unitary_def)
qed




text \<open>
  A matrix \<open>a1 Q1 + a2 Q2 + a3 Q3\<close> with Hermitian, idempotent, mutually orthogonal
  \<open>Q\<close> that sum to the identity and phases \<open>a\<close> of modulus 1 is unitary.
\<close>

lemma spectral_unitary:
  assumes herm: "dagger Q1 = Q1" "dagger Q2 = Q2" "dagger Q3 = Q3"
    and idem: "dot Q1 Q1 = Q1" "dot Q2 Q2 = Q2" "dot Q3 Q3 = Q3"
    and orth: "dot Q1 Q2 = zeros" "dot Q1 Q3 = zeros" "dot Q2 Q1 = zeros"
              "dot Q2 Q3 = zeros" "dot Q3 Q1 = zeros" "dot Q3 Q2 = zeros"
    and total: "madd (madd Q1 Q2) Q3 = ident"
    and phase: "a1 * cnj a1 = 1" "a2 * cnj a2 = 1" "a3 * cnj a3 = 1"
  shows "dot (madd (madd (smul a1 Q1) (smul a2 Q2)) (smul a3 Q3))
             (dagger (madd (madd (smul a1 Q1) (smul a2 Q2)) (smul a3 Q3))) = ident"
    and "dot (dagger (madd (madd (smul a1 Q1) (smul a2 Q2)) (smul a3 Q3)))
             (madd (madd (smul a1 Q1) (smul a2 Q2)) (smul a3 Q3)) = ident"
proof -
  have phase': "cnj a1 * a1 = 1" "cnj a2 * a2 = 1" "cnj a3 * a3 = 1"
    using phase by (simp_all add: mult.commute)
  show "dot (madd (madd (smul a1 Q1) (smul a2 Q2)) (smul a3 Q3))
             (dagger (madd (madd (smul a1 Q1) (smul a2 Q2)) (smul a3 Q3))) = ident"
    by (simp add: dagger_madd dagger_smul herm dot_madd_left dot_madd_right dot_smul_left
        dot_smul_right smul_smul idem orth smul_zeros madd_zeros_left madd_zeros_right phase phase'
        smul_one total)
  show "dot (dagger (madd (madd (smul a1 Q1) (smul a2 Q2)) (smul a3 Q3)))
             (madd (madd (smul a1 Q1) (smul a2 Q2)) (smul a3 Q3)) = ident"
    by (simp add: dagger_madd dagger_smul herm dot_madd_left dot_madd_right dot_smul_left
        dot_smul_right smul_smul idem orth smul_zeros madd_zeros_left madd_zeros_right phase phase'
        smul_one total)
qed

lemma phase_unit: "exp (1 * \<i> * complex_of_real x * complex_of_real y) * cnj (exp (1 * \<i> * complex_of_real x * complex_of_real y)) = 1"
proof -
  have "exp (1 * \<i> * complex_of_real x * complex_of_real y) = cis (x * y)"
    by (simp add: cis_conv_exp mult.assoc)
  then show ?thesis by (simp add: cis_cnj cis_mult)
qed

lemma cs_unit:
  "complex_of_real (cos x) * complex_of_real (cos x) + complex_of_real (sin x) * complex_of_real (sin x) = 1"
proof -
  have "cos x * cos x + sin x * sin x = 1"
    using sin_cos_squared_add3 [of x] by simp
  then have "complex_of_real (cos x * cos x + sin x * sin x) = 1" by simp
  then show ?thesis by (simp only: of_real_add of_real_mult)
qed

lemma proj_idem:
  assumes "c * c + s * s = 1" and "ca * ca + sa * sa = 1"
  shows "dot (proj1 c s) (proj1 c s) = proj1 c s"
    and "dot (proj2 c s ca sa) (proj2 c s ca sa) = proj2 c s ca sa"
    and "dot (proj3 c s ca sa) (proj3 c s ca sa) = proj3 c s ca sa"
  using assms unfolding proj1_def proj2_def proj3_def dot_def
  by (simp_all, algebra+)

lemma proj_orth:
  assumes "c * c + s * s = 1" and "ca * ca + sa * sa = 1"
  shows "dot (proj1 c s) (proj2 c s ca sa) = zeros"
    and "dot (proj1 c s) (proj3 c s ca sa) = zeros"
    and "dot (proj2 c s ca sa) (proj1 c s) = zeros"
    and "dot (proj2 c s ca sa) (proj3 c s ca sa) = zeros"
    and "dot (proj3 c s ca sa) (proj1 c s) = zeros"
    and "dot (proj3 c s ca sa) (proj2 c s ca sa) = zeros"
  using assms unfolding proj1_def proj2_def proj3_def dot_def zeros_def
  by (simp_all, algebra+)

lemma proj_herm:
  assumes "cnj c = c" "cnj s = s" "cnj ca = ca" "cnj sa = sa"
  shows "dagger (proj1 c s) = proj1 c s"
    and "dagger (proj2 c s ca sa) = proj2 c s ca sa"
    and "dagger (proj3 c s ca sa) = proj3 c s ca sa"
  using assms by (simp_all add: proj1_def proj2_def proj3_def dagger_def)

lemma proj_total:
  assumes "c * c + s * s = 1" and "ca * ca + sa * sa = 1"
  shows "madd (madd (proj1 c s) (proj2 c s ca sa)) (proj3 c s ca sa) = ident"
  using assms unfolding proj1_def proj2_def proj3_def madd_def ident_def
  by (simp, algebra)

lemma proj1_frame: "T1_frame (proj1 c s)"
  by (simp add: T1_frame_def proj1_def)

section \<open>The methods in closed form\<close>

subsection \<open>class PhotALPs\<close>

lemma fdiv_Inr: "b \<noteq> 0 \<Longrightarrow> fdiv a b = Inr (a / b)"
  by (simp add: fdiv_def)

lemma fdiv_Inl: "fdiv a 0 = Inl ZeroDivisionError"
  by (simp add: fdiv_def)

lemma SetT1n_closed:
  "SetT1n self =
    self\<lparr>T1 := (T1 self)\<lparr>e00 := complex_of_real (cos (Psin self) * cos (Psin self)),
                           e01 := complex_of_real (- 1 * sin (Psin self) * cos (Psin self)),
                           e10 := complex_of_real (- 1 * sin (Psin self) * cos (Psin self)),
                           e11 := complex_of_real (sin (Psin self) * sin (Psin self))\<rparr>\<rparr>"
  by (simp add: SetT1n_def Let_def)

lemma SetT2n_closed:
  "SetT2n self = self\<lparr>T2 :=
    \<lparr>e00 = 0.5 * (1 + Dn self) / Dn self * complex_of_real (sin (Psin self)) * complex_of_real (sin (Psin self)),
     e01 = 0.5 * (1 + Dn self) / Dn self * complex_of_real (sin (Psin self)) * complex_of_real (cos (Psin self)),
     e02 = - 1 * \<i> * complex_of_real (dn self) / Dn self * complex_of_real (sin (Psin self)),
     e10 = 0.5 * (1 + Dn self) / Dn self * complex_of_real (sin (Psin self)) * complex_of_real (cos (Psin self)),
     e11 = 0.5 * (1 + Dn self) / Dn self * complex_of_real (cos (Psin self)) * complex_of_real (cos (Psin self)),
     e12 = - 1 * \<i> * complex_of_real (dn self) / Dn self * complex_of_real (cos (Psin self)),
     e20 = - 1 * \<i> * complex_of_real (dn self) / Dn self * complex_of_real (sin (Psin self)),
     e21 = - 1 * \<i> * complex_of_real (dn self) / Dn self * complex_of_real (cos (Psin self)),
     e22 = 0.5 * (- 1 + Dn self) / Dn self\<rparr>\<rparr>"
  by (simp add: SetT2n_def Let_def)

lemma SetT3n_closed:
  "SetT3n self = self\<lparr>T3 :=
    \<lparr>e00 = 0.5 * (- 1 + Dn self) / Dn self * complex_of_real (sin (Psin self)) * complex_of_real (sin (Psin self)),
     e01 = 0.5 * (- 1 + Dn self) / Dn self * complex_of_real (sin (Psin self)) * complex_of_real (cos (Psin self)),
     e02 = 1 * \<i> * complex_of_real (dn self) / Dn self * complex_of_real (sin (Psin self)),
     e10 = 0.5 * (- 1 + Dn self) / Dn self * complex_of_real (sin (Psin self)) * complex_of_real (cos (Psin self)),
     e11 = 0.5 * (- 1 + Dn self) / Dn self * complex_of_real (cos (Psin self)) * complex_of_real (cos (Psin self)),
     e12 = 1 * \<i> * complex_of_real (dn self) / Dn self * complex_of_real (cos (Psin self)),
     e20 = 1 * \<i> * complex_of_real (dn self) / Dn self * complex_of_real (sin (Psin self)),
     e21 = 1 * \<i> * complex_of_real (dn self) / Dn self * complex_of_real (cos (Psin self)),
     e22 = 0.5 * (1 + Dn self) / Dn self\<rparr>\<rparr>"
  by (simp add: SetT3n_def Let_def)

lemma igm_sum:
  assumes fr: "T1_frame (T1 self)" and D: "Dn self \<noteq> 0"
  shows "madd (madd (T1 (SetT3n (SetT2n (SetT1n self)))) (T2 (SetT3n (SetT2n (SetT1n self)))))
              (T3 (SetT3n (SetT2n (SetT1n self)))) = ident"
proof -
  define s where "s = complex_of_real (sin (Psin self))"
  define c where "c = complex_of_real (cos (Psin self))"
  have cs: "c * c + s * s = 1"
    unfolding s_def c_def by (rule cs_unit)
  show ?thesis
    using fr D cs
    apply (simp add: SetT1n_closed SetT2n_closed SetT3n_closed madd_def ident_def T1_frame_def
        flip: s_def c_def)
    apply (simp add: field_simps)
    apply algebra
    done
qed

lemma T_set_fields:
  "Ln (T_set self) = Ln self" "mfn_print (T_set self) = mfn_print self" "dtau (T_set self) = dtau self"
  "dn (T_set self) = dn self" "Dn (T_set self) = Dn self" "EW1n (T_set self) = EW1n self"
  "EW2n (T_set self) = EW2n self" "EW3n (T_set self) = EW3n self" "Psin (T_set self) = Psin self"
  by (simp_all add: T_set_def SetT1n_closed SetT2n_closed SetT3n_closed)

lemma SetUn_closed:
  "Ln self = Some L \<Longrightarrow>
   SetUn self = Inr (self\<lparr>Un_mat :=
           madd (madd (smul (exp (complex_of_real (EW1n self * L))) (T1 self))
                      (smul (exp (EW2n self * complex_of_real L)) (T2 self)))
                (smul (exp (EW3n self * complex_of_real L)) (T3 self))\<rparr>)"
  by (simp add: SetUn_def)

lemma SetDomainN_closed:
  "SetDomainN od n self =
     (if Ln_den self n = 0 \<or> mfn_val od self n = 0 then Inl ZeroDivisionError
      else SetUn (SetT3n (SetT2n (SetT1n (domain_prepared od n self)))))"
proof (cases "Ln_den self n = 0")
  case True
  then have "fdiv (4290 * dz self) (1 + 1.45 * (real_of_int n - 1) * dz self) = Inl ZeroDivisionError"
    unfolding Ln_den_def by (simp only: fdiv_Inl)
  then show ?thesis
    using True by (simp only: SetDomainN_def Let_def sum.case if_True simp_thms)
next
  case den: False
  then have f1: "fdiv (4290 * dz self) (1 + 1.45 * (real_of_int n - 1) * dz self) = Inr (Ln_val self n)"
    unfolding Ln_den_def Ln_val_def Ln_den_def by (rule fdiv_Inr)
  have mfn_fold:
    "(if od (real_of_int n * dz self) (E0 self) - od ((real_of_int n - 1) * dz self) (E0 self) \<noteq> 0
      then Ln_val self n / (od (real_of_int n * dz self) (E0 self) - od ((real_of_int n - 1) * dz self) (E0 self))
      else Ln_val self n / (1 / 10 ^ 20)) = mfn_val od self n"
    unfolding mfn_val_def difftau_val_def ..
  show ?thesis
  proof (cases "mfn_val od self n = 0")
    case True
    then show ?thesis
      using den
      by (simp only: SetDomainN_def Let_def f1 sum.case mfn_fold fdiv_Inl simp_thms if_True)
  next
    case False
    then have f2: "fdiv (- 0.5) (mfn_val od self n) = Inr (- 0.5 / mfn_val od self n)"
      and f3: "fdiv (- 0.25) (mfn_val od self n) = Inr (- 0.25 / mfn_val od self n)"
      by (simp_all add: fdiv_def)
    have "SetDomainN od n self = SetUn (SetT3n (SetT2n (SetT1n (domain_prepared od n self))))"
      apply (simp only: SetDomainN_def Let_def f1 sum.case mfn_fold f2 f3)
      apply (simp add: domain_prepared_def dn_val_def Dn_val_def difftau_val_def)
      done
    then show ?thesis
      using den False by simp
  qed
qed

lemma SetDomainN_result:
  assumes "Ln_den self n \<noteq> 0" and "mfn_val od self n \<noteq> 0"
  shows "SetDomainN od n self =
     Inr ((T_set (domain_prepared od n self))\<lparr>Un_mat :=
           madd (madd (smul (exp (complex_of_real (- 0.5 / mfn_val od self n * Ln_val self n)))
                            (T1 (T_set (domain_prepared od n self))))
                      (smul (exp (complex_of_real (- 0.25 / mfn_val od self n) * (1 + Dn_val od self n)
                                   * complex_of_real (Ln_val self n)))
                            (T2 (T_set (domain_prepared od n self)))))
                (smul (exp (complex_of_real (- 0.25 / mfn_val od self n) * (1 - Dn_val od self n)
                             * complex_of_real (Ln_val self n)))
                      (T3 (T_set (domain_prepared od n self))))\<rparr>)"
proof -
  have L: "Ln (T_set (domain_prepared od n self)) = Some (Ln_val self n)"
    by (simp add: T_set_fields domain_prepared_def)
  have e: "EW1n (T_set (domain_prepared od n self)) = - 0.5 / mfn_val od self n"
    "EW2n (T_set (domain_prepared od n self)) = complex_of_real (- 0.25 / mfn_val od self n) * (1 + Dn_val od self n)"
    "EW3n (T_set (domain_prepared od n self)) = complex_of_real (- 0.25 / mfn_val od self n) * (1 - Dn_val od self n)"
    by (simp_all add: T_set_fields domain_prepared_def)
  show ?thesis
    using assms
    unfolding SetDomainN_closed T_set_def [symmetric] SetUn_closed [OF L] e
    by simp
qed

lemma SetDomainN_Inr:
  assumes "SetDomainN od n self = Inr self'"
  shows "Ln_den self n \<noteq> 0" and "mfn_val od self n \<noteq> 0"
  using assms by (auto simp add: SetDomainN_closed split: if_splits)

lemma mfn_val_nonzero:
  assumes "Ln_den self n \<noteq> 0" and "dz self \<noteq> 0"
  shows "mfn_val od self n \<noteq> 0"
  using assms by (simp add: mfn_val_def Ln_val_def)

lemma SetDomainN_values:
  assumes run: "SetDomainN od n self = Inr self'"
  shows "mfn_print self' = mfn_val od self n \<and> Ln self' = Some (Ln_val self n) \<and>
         dn self' = dn_val od self n \<and>
         complex_of_real (EW1n self') = spec_EW1 (mfn_print self') \<and>
         EW2n self' = spec_EW2 (mfn_print self') (Dn self') \<and>
         EW3n self' = spec_EW3 (mfn_print self') (Dn self') \<and>
         Dn self' = spec_D (dn self') \<and>
         Un_mat self' = spec_Un (complex_of_real (EW1n self')) (EW2n self') (EW3n self') (Ln_val self n)
                          (T1 self') (T2 self') (T3 self')"
proof -
  note nz = SetDomainN_Inr [OF run]
  have eq: "self' = (T_set (domain_prepared od n self))\<lparr>Un_mat :=
           madd (madd (smul (exp (complex_of_real (- 0.5 / mfn_val od self n * Ln_val self n)))
                            (T1 (T_set (domain_prepared od n self))))
                      (smul (exp (complex_of_real (- 0.25 / mfn_val od self n) * (1 + Dn_val od self n)
                                   * complex_of_real (Ln_val self n)))
                            (T2 (T_set (domain_prepared od n self)))))
                (smul (exp (complex_of_real (- 0.25 / mfn_val od self n) * (1 - Dn_val od self n)
                             * complex_of_real (Ln_val self n)))
                      (T3 (T_set (domain_prepared od n self))))\<rparr>"
    using run unfolding SetDomainN_result [OF nz] by simp
  show ?thesis
    unfolding eq
    by (simp add: T_set_fields domain_prepared_def spec_EW1_def spec_EW2_def spec_EW3_def spec_D_def
        spec_Un_def Dn_val_def)
qed

lemma csqrt_neg_real:
  assumes "x < 0"
  shows "csqrt (complex_of_real x) = \<i> * complex_of_real (sqrt (- x))"
  using assms csqrt_of_real_nonpos [of "complex_of_real x"] by simp

lemma init_frame: "T1_frame (T1 (PhotALPs_init Ldom1 xi0))"
  by (simp add: PhotALPs_init_def T1_frame_def zeros_def)

lemma SetDomainN_frame:
  assumes "T1_frame (T1 self)" and "SetDomainN od n self = Inr self'"
  shows "T1_frame (T1 self')"
proof -
  note nz = SetDomainN_Inr [OF assms(2)]
  show ?thesis
    using assms
    unfolding SetDomainN_result [OF nz]
    by (auto simp add: T_set_def SetT1n_closed SetT2n_closed SetT3n_closed domain_prepared_def T1_frame_def)
qed

subsection \<open>class PhotALPs_ICM\<close>

lemma setT1n_closed:
  "setT1n self =
    self\<lparr>T1_icm := (T1_icm self)\<lparr>e00 := complex_of_real (cos (Psin_icm self) * cos (Psin_icm self)),
                           e01 := complex_of_real (- 1 * cos (Psin_icm self) * sin (Psin_icm self)),
                           e10 := complex_of_real (- 1 * cos (Psin_icm self) * sin (Psin_icm self)),
                           e11 := complex_of_real (sin (Psin_icm self) * sin (Psin_icm self))\<rparr>\<rparr>"
  by (simp add: setT1n_def Let_def)

lemma setT2n_closed:
  "setT2n self = self\<lparr>T2_icm :=
    \<lparr>e00 = complex_of_real (sin (Psin_icm self) * sin (Psin_icm self) * sin (alph self) * sin (alph self)),
     e01 = complex_of_real (sin (Psin_icm self) * cos (Psin_icm self) * sin (alph self) * sin (alph self)),
     e02 = complex_of_real (- 1 * sin (Psin_icm self) * sin (alph self) * cos (alph self)),
     e10 = complex_of_real (sin (Psin_icm self) * cos (Psin_icm self) * sin (alph self) * sin (alph self)),
     e11 = complex_of_real (cos (Psin_icm self) * cos (Psin_icm self) * sin (alph self) * sin (alph self)),
     e12 = complex_of_real (- 1 * cos (Psin_icm self) * cos (alph self) * sin (alph self)),
     e20 = complex_of_real (- 1 * sin (Psin_icm self) * sin (alph self) * cos (alph self)),
     e21 = complex_of_real (- 1 * cos (Psin_icm self) * cos (alph self) * sin (alph self)),
     e22 = complex_of_real (cos (alph self) * cos (alph self))\<rparr>\<rparr>"
  by (simp add: setT2n_def Let_def)

lemma setT3n_closed:
  "setT3n self = self\<lparr>T3_icm :=
    \<lparr>e00 = complex_of_real (sin (Psin_icm self) * sin (Psin_icm self) * cos (alph self) * cos (alph self)),
     e01 = complex_of_real (sin (Psin_icm self) * cos (Psin_icm self) * cos (alph self) * cos (alph self)),
     e02 = complex_of_real (sin (Psin_icm self) * sin (alph self) * cos (alph self)),
     e10 = complex_of_real (sin (Psin_icm self) * cos (Psin_icm self) * cos (alph self) * cos (alph self)),
     e11 = complex_of_real (cos (Psin_icm self) * cos (Psin_icm self) * cos (alph self) * cos (alph self)),
     e12 = complex_of_real (cos (Psin_icm self) * sin (alph self) * cos (alph self)),
     e20 = complex_of_real (sin (Psin_icm self) * sin (alph self) * cos (alph self)),
     e21 = complex_of_real (cos (Psin_icm self) * sin (alph self) * cos (alph self)),
     e22 = complex_of_real (sin (alph self) * sin (alph self))\<rparr>\<rparr>"
  by (simp add: setT3n_def Let_def)

lemma icm_sum:
  assumes fr: "T1_frame (T1_icm self)"
  shows "madd (madd (T1_icm (setT3n (setT2n (setT1n self)))) (T2_icm (setT3n (setT2n (setT1n self)))))
              (T3_icm (setT3n (setT2n (setT1n self)))) = ident"
proof -
  define s where "s = complex_of_real (sin (Psin_icm self))"
  define c where "c = complex_of_real (cos (Psin_icm self))"
  define sa where "sa = complex_of_real (sin (alph self))"
  define ca where "ca = complex_of_real (cos (alph self))"
  have cs: "c * c + s * s = 1"
    unfolding s_def c_def by (rule cs_unit)
  have csa: "ca * ca + sa * sa = 1"
    unfolding sa_def ca_def by (rule cs_unit)
  show ?thesis
    using fr cs csa
    apply (simp add: setT1n_closed setT2n_closed setT3n_closed madd_def ident_def T1_frame_def
        flip: s_def c_def sa_def ca_def)
    apply (intro conjI)
    apply algebra+
    done
qed

lemma icm_T_values:
  assumes fr: "T1_frame (T1_icm self)"
  shows "T1_icm (setT3n (setT2n (setT1n self)))
           = proj1 (complex_of_real (cos (Psin_icm self))) (complex_of_real (sin (Psin_icm self)))"
    and "T2_icm (setT3n (setT2n (setT1n self)))
           = proj2 (complex_of_real (cos (Psin_icm self))) (complex_of_real (sin (Psin_icm self)))
                   (complex_of_real (cos (alph self))) (complex_of_real (sin (alph self)))"
    and "T3_icm (setT3n (setT2n (setT1n self)))
           = proj3 (complex_of_real (cos (Psin_icm self))) (complex_of_real (sin (Psin_icm self)))
                   (complex_of_real (cos (alph self))) (complex_of_real (sin (alph self)))"
  using fr
  by (simp_all add: setT1n_closed setT2n_closed setT3n_closed proj1_def proj2_def proj3_def
      T1_frame_def cmat.equality)

lemma T_icm_fields:
  "EW1 (setT3n (setT2n (setT1n self))) = EW1 self"
  "EW2 (setT3n (setT2n (setT1n self))) = EW2 self"
  "EW3 (setT3n (setT2n (setT1n self))) = EW3 self"
  "Lcoh (setT3n (setT2n (setT1n self))) = Lcoh self"
  by (simp_all add: setT1n_closed setT2n_closed setT3n_closed)

lemma setUn_value:
  "Un_icm (setUn self) =
     madd (madd (smul (exp (1 * \<i> * complex_of_real (EW1 self) * complex_of_real (Lcoh self))) (T1_icm self))
                (smul (exp (1 * \<i> * complex_of_real (EW2 self) * complex_of_real (Lcoh self))) (T2_icm self)))
          (smul (exp (1 * \<i> * complex_of_real (EW3 self) * complex_of_real (Lcoh self))) (T3_icm self))"
  by (simp add: setUn_def)

lemma setUn_T1: "T1_icm (setUn self) = T1_icm self"
  by (simp add: setUn_def)

lemma icm_unitary_core:
  assumes fr: "T1_frame (T1_icm self)"
  shows "dot (Un_icm (setUn (setT3n (setT2n (setT1n self)))))
             (dagger (Un_icm (setUn (setT3n (setT2n (setT1n self)))))) = ident"
    and "dot (dagger (Un_icm (setUn (setT3n (setT2n (setT1n self))))))
             (Un_icm (setUn (setT3n (setT2n (setT1n self))))) = ident"
proof -
  define c where "c = complex_of_real (cos (Psin_icm self))"
  define s where "s = complex_of_real (sin (Psin_icm self))"
  define ca where "ca = complex_of_real (cos (alph self))"
  define sa where "sa = complex_of_real (sin (alph self))"
  have cs: "c * c + s * s = 1" unfolding c_def s_def by (rule cs_unit)
  have csa: "ca * ca + sa * sa = 1" unfolding ca_def sa_def by (rule cs_unit)
  have re: "cnj c = c" "cnj s = s" "cnj ca = ca" "cnj sa = sa"
    by (simp_all add: c_def s_def ca_def sa_def)
  note vals = icm_T_values [OF fr, folded c_def s_def ca_def sa_def]
  show "dot (Un_icm (setUn (setT3n (setT2n (setT1n self)))))
             (dagger (Un_icm (setUn (setT3n (setT2n (setT1n self)))))) = ident"
    unfolding setUn_value vals
    by (rule spectral_unitary(1) [OF proj_herm [OF re] proj_idem [OF cs csa] proj_orth [OF cs csa]
          proj_total [OF cs csa] phase_unit phase_unit phase_unit])
  show "dot (dagger (Un_icm (setUn (setT3n (setT2n (setT1n self))))))
             (Un_icm (setUn (setT3n (setT2n (setT1n self))))) = ident"
    unfolding setUn_value vals
    by (rule spectral_unitary(2) [OF proj_herm [OF re] proj_idem [OF cs csa] proj_orth [OF cs csa]
          proj_total [OF cs csa] phase_unit phase_unit phase_unit])
qed

lemma setDeltas_closed:
  "setDeltas ext self =
     (if Dpar_val ext self - Da_val ext self = 0 then Inl ZeroDivisionError
      else Inr (self\<lparr>Dperp := Dperp_val ext self, Dpar := Dpar_val ext self, Dag := Dag_val ext self,
          Da := Da_val ext self,
          alph := 0.5 * arctan (2 * Dag_val ext self / (Dpar_val ext self - Da_val ext self)),
          Dosc := Dosc_val ext self\<rparr>))"
  by (simp add: setDeltas_def fdiv_def Let_def Dperp_val_def Dpar_val_def Dag_val_def Da_val_def
      Dosc_val_def)

lemma setEW_closed:
  "setEW ext self =
     (if Dpar_val ext self - Da_val ext self = 0 then Inl ZeroDivisionError
      else Inr (deltas_prepared ext self))"
  by (simp add: setEW_def setDeltas_closed Let_def deltas_prepared_def)

lemma SetDomainN_ICM_closed:
  "SetDomainN_ICM ext self =
     (if Dpar_val ext self - Da_val ext self = 0 then Inl ZeroDivisionError
      else Inr (setUn (setT3n (setT2n (setT1n (deltas_prepared ext self))))))"
  by (simp add: SetDomainN_ICM_def setEW_closed)

lemma deltas_prepared_frame:
  "T1_icm (deltas_prepared ext self) = T1_icm self"
  "Psin_icm (deltas_prepared ext self) = Psin_icm self"
  by (simp_all add: deltas_prepared_def)

lemma SetDomainN_ICM_unitary:
  assumes fr: "T1_frame (T1_icm self)" and run: "SetDomainN_ICM ext self = Inr self'"
  shows "unitary (Un_icm self')" and "T1_frame (T1_icm self')"
proof -
  let ?p = "deltas_prepared ext self"
  have eq: "self' = setUn (setT3n (setT2n (setT1n ?p)))"
    using run by (simp add: SetDomainN_ICM_closed split: if_splits)
  have fr': "T1_frame (T1_icm ?p)"
    using fr by (simp add: deltas_prepared_frame)
  show "unitary (Un_icm self')"
    unfolding unitary_def eq
    using icm_unitary_core [OF fr'] by simp
  show "T1_frame (T1_icm self')"
    unfolding eq setUn_T1 icm_T_values(1) [OF fr'] by (rule proj1_frame)
qed

subsection \<open>class PhotALPs_GMF: the loop of Pag_TM\<close>

lemma Pag_TM_step_closed:
  "Pag_TM_step ext (U, self) s =
     (case SetDomainN_ICM ext (domain_state ext self s) of
        Inl err \<Rightarrow> Inl err
      | Inr st \<Rightarrow> Inr (dot U (Un_icm st), st))"
  by (simp add: Pag_TM_step_def Let_def domain_state_def Psin_val_def Bt_val_def Bu_val_def
      Btrans_val_def field_proj_def)

lemma static_eq_refl: "static_eq a a"
  by (simp add: static_eq_def)

lemma static_eq_trans: "static_eq a b \<Longrightarrow> static_eq b c \<Longrightarrow> static_eq a c"
  by (simp add: static_eq_def)

lemma mixing_defined_static:
  assumes "static_eq a b"
  shows "mixing_defined ext a s = mixing_defined ext b s"
  using assms
  by (simp add: static_eq_def mixing_defined_def Dpar_val_def Da_val_def domain_state_def
      Btrans_val_def Bt_val_def Bu_val_def field_proj_def Bgmf_calc_def Let_def)

lemma domain_static:
  "static_eq self (setUn (setT3n (setT2n (setT1n (deltas_prepared ext (domain_state ext self s))))))"
  by (simp add: static_eq_def setUn_def setT1n_closed setT2n_closed setT3n_closed deltas_prepared_def
      domain_state_def)

lemma domain_state_T1: "T1_icm (domain_state ext self s) = T1_icm self"
  by (simp add: domain_state_def)

lemma Pag_TM_step_Inr:
  assumes "Pag_TM_step ext (U, self) s = Inr (U', self')"
  shows "SetDomainN_ICM ext (domain_state ext self s) = Inr self'"
    and "U' = dot U (Un_icm self')"
    and "static_eq self self'"
    and "mixing_defined ext self s"
proof -
  show 1: "SetDomainN_ICM ext (domain_state ext self s) = Inr self'"
    using assms by (simp add: Pag_TM_step_closed split: sum.splits)
  show "U' = dot U (Un_icm self')"
    using assms by (auto simp add: Pag_TM_step_closed split: sum.splits)
  show "mixing_defined ext self s"
    using 1 by (simp add: SetDomainN_ICM_closed mixing_defined_def split: if_splits)
  show "static_eq self self'"
    using 1 domain_static [of self ext s]
    by (simp add: SetDomainN_ICM_closed split: if_splits)
qed

lemma Pag_TM_step_returns:
  assumes "mixing_defined ext self s"
  shows "\<exists>self'. Pag_TM_step ext (U, self) s = Inr (dot U (Un_icm self'), self')"
  using assms
  by (simp add: Pag_TM_step_closed SetDomainN_ICM_closed mixing_defined_def)

lemma domain_matrix_closed:
  assumes fr: "T1_frame (T1_icm self)" and md: "mixing_defined ext self s"
  shows "domain_matrix ext self s = Un_of ext self s"
proof -
  let ?p = "deltas_prepared ext (domain_state ext self s)"
  have fr': "T1_frame (T1_icm ?p)"
    using fr by (simp add: deltas_prepared_frame domain_state_T1)
  have "domain_matrix ext self s = Un_icm (setUn (setT3n (setT2n (setT1n ?p))))"
    using md by (simp add: domain_matrix_def SetDomainN_ICM_closed mixing_defined_def)
  also have "\<dots> = Un_of ext self s"
    unfolding setUn_value icm_T_values [OF fr'] T_icm_fields Un_of_def Let_def
    by (simp add: setT1n_closed setT2n_closed setT3n_closed)
  finally show ?thesis .
qed

lemma Un_of_static:
  assumes "static_eq a b"
  shows "Un_of ext a s = Un_of ext b s"
  using assms
  by (simp add: static_eq_def Un_of_def Let_def deltas_prepared_def domain_state_def Dperp_val_def
      Dpar_val_def Dag_val_def Da_val_def Dosc_val_def Psin_val_def
      Btrans_val_def Bt_val_def Bu_val_def field_proj_def Bgmf_calc_def)

lemma Pag_TM_step_value:
  assumes fr: "T1_frame (T1_icm self)" and md: "mixing_defined ext self s"
  shows "\<exists>self'. Pag_TM_step ext (U, self) s = Inr (dot U (domain_matrix ext self s), self') \<and>
           T1_frame (T1_icm self') \<and> static_eq self self'"
proof -
  from Pag_TM_step_returns [OF md] obtain self' where
    step: "Pag_TM_step ext (U, self) s = Inr (dot U (Un_icm self'), self')"
    by blast
  note facts = Pag_TM_step_Inr [OF step]
  have fr0: "T1_frame (T1_icm (domain_state ext self s))"
    using fr by (simp add: domain_state_T1)
  have "domain_matrix ext self s = Un_icm self'"
    by (simp add: domain_matrix_def facts(1))
  then show ?thesis
    using step facts(3) SetDomainN_ICM_unitary(2) [OF fr0 facts(1)] by auto
qed

lemma Pag_TM_loop_invariant:
  assumes "T1_frame (T1_icm self)" and "unitary U0"
    and "Pag_TM_loop ext sa (U0, self) = Inr (U, self')"
  shows "unitary U \<and> T1_frame (T1_icm self') \<and> static_eq self self'"
  using assms
proof (induction sa arbitrary: U0 self)
  case Nil
  then show ?case by (simp add: static_eq_refl)
next
  case (Cons s sa)
  from Cons.prems(3) obtain U1 self1 where
    step: "Pag_TM_step ext (U0, self) s = Inr (U1, self1)"
    and rest: "Pag_TM_loop ext sa (U1, self1) = Inr (U, self')"
    by (auto split: sum.splits)
  note facts = Pag_TM_step_Inr [OF step]
  have fr0: "T1_frame (T1_icm (domain_state ext self s))"
    using Cons.prems(1) by (simp add: domain_state_T1)
  have u1: "unitary (Un_icm self1)" and fr1: "T1_frame (T1_icm self1)"
    using SetDomainN_ICM_unitary [OF fr0 facts(1)] by simp_all
  have "unitary U1"
    unfolding facts(2) by (rule unitary_dot [OF Cons.prems(2) u1])
  from Cons.IH [OF fr1 this rest] facts(3) show ?case
    by (auto intro: static_eq_trans)
qed



lemma Pag_TM_loop_value:
  assumes "T1_frame (T1_icm self)" and "list_all (mixing_defined ext self) sa"
  shows "\<exists>self'. Pag_TM_loop ext sa (U0, self) =
                   Inr (foldl (\<lambda>U s. dot U (domain_matrix ext self s)) U0 sa, self')"
  using assms
proof (induction sa arbitrary: U0 self)
  case Nil
  then show ?case by simp
next
  case (Cons s sa)
  then have md: "mixing_defined ext self s" and rest: "list_all (mixing_defined ext self) sa"
    by simp_all
  from Pag_TM_step_value [OF Cons.prems(1) md] obtain self1 where
    step: "Pag_TM_step ext (U0, self) s = Inr (dot U0 (domain_matrix ext self s), self1)"
    and fr1: "T1_frame (T1_icm self1)" and st: "static_eq self self1"
    by blast
  have md1: "list_all (mixing_defined ext self1) sa"
    using rest by (simp add: mixing_defined_static [OF st] list_all_iff)
  have same: "domain_matrix ext self1 t = domain_matrix ext self t" if "t \<in> set sa" for t
  proof -
    have a: "mixing_defined ext self t" using rest that by (simp add: list_all_iff)
    have b: "mixing_defined ext self1 t" using md1 that by (simp add: list_all_iff)
    show ?thesis
      by (simp add: domain_matrix_closed [OF Cons.prems(1) a] domain_matrix_closed [OF fr1 b]
          Un_of_static [OF st])
  qed
  have fold_same: "foldl (\<lambda>U s. dot U (domain_matrix ext self1 s)) V sa
                    = foldl (\<lambda>U s. dot U (domain_matrix ext self s)) V sa" for V
    using same by (induction sa arbitrary: V) simp_all
  from Cons.IH [OF fr1 md1] obtain self' where
    "Pag_TM_loop ext sa (dot U0 (domain_matrix ext self s), self1) =
       Inr (foldl (\<lambda>U s. dot U (domain_matrix ext self1 s)) (dot U0 (domain_matrix ext self s)) sa, self')"
    by blast
  then show ?case
    using step by (simp add: fold_same)
qed

lemma Pag_TM_loop_snoc:
  "Pag_TM_loop ext (sa @ [s]) acc =
     (case Pag_TM_loop ext sa acc of Inl err \<Rightarrow> Inl err | Inr acc' \<Rightarrow> Pag_TM_step ext acc' s)"
  by (induction sa arbitrary: acc) (simp_all split: sum.splits)

lemma start_state_T1: "T1_icm (start_state ext E ra dec self) = T1_icm self"
  by (simp add: start_state_def set_coordinates_def Let_def)

lemma start_state_Lcoh: "Lcoh (start_state ext E ra dec self) = Lcoh self"
  by (simp add: start_state_def set_coordinates_def Let_def)

lemma Pag_TM_closed:
  "Pag_TM ext E ra dec pol pol_final self =
    (case fdiv (smax (start_state ext E ra dec self)) (Lcoh self) of
       Inl err \<Rightarrow> Inl err
     | Inr q \<Rightarrow>
        (case linspace (smax (start_state ext E ra dec self)) 0 (py_int q) False of
           Inl err \<Rightarrow> Inl err
         | Inr sa \<Rightarrow>
            (case Pag_TM_loop ext sa (ident, start_state ext E ra dec self) of
               Inl err \<Rightarrow> Inl err
             | Inr acc \<Rightarrow>
                (case pol_final of
                   None \<Rightarrow>
                     Inr (Channels
                           (trace (dot (zeros\<lparr>e00 := e00 zeros + 1\<rparr>) (dot (fst acc) (dot pol (dagger (fst acc))))))
                           (trace (dot (zeros\<lparr>e11 := e11 zeros + 1\<rparr>) (dot (fst acc) (dot pol (dagger (fst acc))))))
                           (trace (dot (zeros\<lparr>e22 := e22 zeros + 1\<rparr>) (dot (fst acc) (dot pol (dagger (fst acc)))))),
                          snd acc)
                 | Some pf \<Rightarrow>
                     Inr (Final (trace (dot pf (dot (fst acc) (dot pol (dagger (fst acc)))))), snd acc)))))"
  unfolding Pag_TM_def start_state_def [symmetric] Let_def start_state_Lcoh ..





text \<open>
  The entries of \<open>T1\<close> that no method assigns stay zero: \<open>__init__\<close> makes them so, and
  \<open>Pag_TM\<close> and \<open>Pag\<close> keep them.
\<close>

lemma GMF_init_frame:
  assumes "PhotALPs_GMF_init h pol_t0 pol_u0 g0 m0 n0 galactic0 rho_max0 zmax0 d0 Lcoh0 = Inr self"
  shows "T1_frame (T1_icm self)"
  using assms
  by (auto simp add: PhotALPs_GMF_init_def PhotALPs_ICM_init_def fdiv_def T1_frame_def zeros_def
      PhotALPs_ICM.defs PhotALPs_GMF.defs split: if_splits)

lemma Pag_TM_frame:
  assumes "T1_frame (T1_icm self)" and "Pag_TM ext E ra dec pol pol_final self = Inr (r, self')"
  shows "T1_frame (T1_icm self')"
proof -
  from assms(2) obtain sa acc where
    loop: "Pag_TM_loop ext sa (ident, start_state ext E ra dec self) = Inr acc"
    and s: "self' = snd acc"
    unfolding Pag_TM_closed by (auto split: sum.splits option.splits)
  have "T1_frame (T1_icm (start_state ext E ra dec self))"
    using assms(1) by (simp add: start_state_T1)
  from Pag_TM_loop_invariant [OF this unitary_ident, of ext sa "fst acc" "snd acc"] loop s
  show ?thesis by simp
qed

subsection \<open>class PhotALPs_GMF: integrate_los and Pag\<close>

lemma los_sample_warnings: "snd (snd (los_sample ext self s)) = sample_warnings ext self s"
  by (simp add: los_sample_def Let_def sample_warnings_def coupling_t_def coupling_u_def
      Bt_val_def Bu_val_def field_proj_def)

lemma los_loop_warnings:
  "snd (snd (los_loop ext self sa)) = concat (map (sample_warnings ext self) sa)"
  by (induction sa) (simp_all add: Let_def los_sample_warnings)

lemma sample_warnings_count:
  "length (concat (map (sample_warnings ext self) sa)) =
     length (filter (\<lambda>s. pertubation < coupling_t ext self s) sa) +
     length (filter (\<lambda>s. pertubation < coupling_u ext self s) sa)"
  by (induction sa) (simp_all add: sample_warnings_def)

lemma integrate_los_warnings:
  assumes "Lcoh self \<noteq> 0"
    and "linspace 0 (smax self) (py_int (smax self / Lcoh self)) True = Inr sa"
  shows "\<exists>r. integrate_los ext self = Inr (r, concat (map (sample_warnings ext self) sa))"
  using assms
  by (simp add: integrate_los_def fdiv_def Let_def los_loop_warnings)



lemma Pag_setup_weights:
  "pol_t (Pag_setup ext E ra dec pt pu self) = (if 0 < pt then pt else pol_t self)"
  "pol_u (Pag_setup ext E ra dec pt pu self) = (if 0 < pu then pu else pol_u self)"
  by (simp_all add: Pag_setup_def Let_def set_coordinates_def)


lemma Pag_frame:
  assumes "Pag ext E ra dec pt pu self = Inr (p, self', ws)"
  shows "T1_icm self' = T1_icm self"
  using assms
  by (auto simp add: Pag_def Pag_setup_def set_coordinates_def Let_def split: sum.splits if_splits)

section \<open>The example objects evaluated\<close>

lemma ex_gmf_init: "PhotALPs_GMF_init 0.7 (3 / 5) (4 / 5) 0 0 1 2 20 50 (- 8.5) 1 = Inr ex_gmf"
  by (simp add: PhotALPs_GMF_init_def PhotALPs_ICM_init_def fdiv_def ex_gmf_def
      PhotALPs_ICM.defs PhotALPs_GMF.defs)

lemma ex_gmf_frame: "T1_frame (T1_icm ex_gmf)"
  by (simp add: ex_gmf_def T1_frame_def zeros_def)


lemma ex_start_fields:
  "smax (start_state ex_ext E 0 0 ex_gmf) = 2"
  "Lcoh (start_state ex_ext E 0 0 ex_gmf) = 1"
  "E_icm (start_state ex_ext E 0 0 ex_gmf) = E"
  "n_icm (start_state ex_ext E 0 0 ex_gmf) = 1"
  "m_icm (start_state ex_ext E 0 0 ex_gmf) = 0"
  "g_icm (start_state ex_ext E 0 0 ex_gmf) = 0"
  by (simp_all add: start_state_def set_coordinates_def Let_def ex_gmf_def ex_ext_def)


lemma ex_field: "field_proj ex_ext self s = (if s = 1 then (0, 3 / 5, 4 / 5) else (0, 1, 0))"
  by (simp add: field_proj_def Bgmf_calc_def Let_def ex_ext_def vadd_def)

lemma ex_Btrans: "Btrans_val ex_ext self s = 1"
proof -
  have "(3 / 5 :: real)\<^sup>2 + (4 / 5)\<^sup>2 = 1"
    by (simp add: power2_eq_square)
  then show ?thesis
    by (simp add: Btrans_val_def Bt_val_def Bu_val_def ex_field)
qed



lemma ex_start_static:
  "Lcoh ex_start = 1" "E_icm ex_start = 1" "n_icm ex_start = 1" "m_icm ex_start = 0"
  "g_icm ex_start = 0" "smax ex_start = 2"
  by (simp_all add: ex_start_def ex_start_fields)

lemma ex_start_frame: "T1_frame (T1_icm ex_start)"
  by (simp add: ex_start_def start_state_T1 ex_gmf_frame)

lemma ex_domain_deltas:
  "Dperp_val ex_ext (domain_state ex_ext ex_start s) = 0"
  "Dpar_val ex_ext (domain_state ex_ext ex_start s) = pi"
  "Dag_val ex_ext (domain_state ex_ext ex_start s) = 0"
  "Da_val ex_ext (domain_state ex_ext ex_start s) = 0"
  "Dosc_val ex_ext (domain_state ex_ext ex_start s) = pi"
  by (simp_all add: Dperp_val_def Dpar_val_def Dag_val_def Da_val_def Dosc_val_def domain_state_def
      ex_Btrans ex_start_static, simp_all add: ex_ext_def)

lemma ex_mixing: "mixing_defined ex_ext ex_start s"
  by (simp add: mixing_defined_def ex_domain_deltas)


lemma ex_angles:
  "Psin_val ex_ext ex_start 2 = 0"
  "cos (Psin_val ex_ext ex_start 1) = 3 / 5"
  "sin (Psin_val ex_ext ex_start 1) = 4 / 5"
proof -
  have sq: "sqrt (16 / 25) = 4 / 5"
    by (rule real_sqrt_unique) (simp_all add: power2_eq_square)
  have r: "(1::real) - (3 / 5)\<^sup>2 = 16 / 25"
    by (simp add: power2_eq_square)
  have "sin (arccos (3 / 5 :: real)) = sqrt (1 - (3 / 5)\<^sup>2)"
    by (rule sin_arccos) simp_all
  then have s: "sin (arccos (3 / 5 :: real)) = 4 / 5"
    unfolding r sq .
  show "Psin_val ex_ext ex_start 2 = 0"
    by (simp add: Psin_val_def ex_Btrans Bt_val_def Bu_val_def ex_field)
  show "cos (Psin_val ex_ext ex_start 1) = 3 / 5"
    by (simp add: Psin_val_def ex_Btrans Bt_val_def Bu_val_def ex_field)
  show "sin (Psin_val ex_ext ex_start 1) = 4 / 5"
    using s by (simp add: Psin_val_def ex_Btrans Bt_val_def Bu_val_def ex_field)
qed

lemma ex_prepared:
  "EW1 (deltas_prepared ex_ext (domain_state ex_ext ex_start s)) = 0"
  "EW2 (deltas_prepared ex_ext (domain_state ex_ext ex_start s)) = 0"
  "EW3 (deltas_prepared ex_ext (domain_state ex_ext ex_start s)) = pi"
  "alph (deltas_prepared ex_ext (domain_state ex_ext ex_start s)) = 0"
  "Lcoh (deltas_prepared ex_ext (domain_state ex_ext ex_start s)) = 1"
  "Psin_icm (deltas_prepared ex_ext (domain_state ex_ext ex_start s)) = Psin_val ex_ext ex_start s"
  by (simp_all add: deltas_prepared_def ex_domain_deltas)
     (simp_all add: domain_state_def ex_start_static)

lemma ex_domain_matrices:
  "domain_matrix ex_ext ex_start 2 = ex_U1"
  "domain_matrix ex_ext ex_start 1 = ex_U2"
proof -
  have e: "exp (\<i> * complex_of_real pi) = - 1"
    by (rule exp_pi_i')
  show "domain_matrix ex_ext ex_start 2 = ex_U1"
    unfolding domain_matrix_closed [OF ex_start_frame ex_mixing] Un_of_def Let_def ex_prepared ex_angles
    by (simp add: e proj1_def proj2_def proj3_def madd_def smul_def ex_U1_def)
  show "domain_matrix ex_ext ex_start 1 = ex_U2"
    unfolding domain_matrix_closed [OF ex_start_frame ex_mixing] Un_of_def Let_def ex_prepared ex_angles
    by (simp add: e proj1_def proj2_def proj3_def madd_def smul_def ex_U2_def)
qed

lemma ex_los_fields:
  "Lcoh ex_los = 1" "smax ex_los = 3" "g_icm ex_los = 1 / 5" "E_icm ex_los = 1"
  "n_icm ex_los = 1" "m_icm ex_los = 0" "pol_t ex_los = 3 / 5" "pol_u ex_los = 4 / 5"
  by (simp_all add: ex_los_def ex_gmf3_def ex_gmf_def)

lemma ex_los_start: "start_state ex_ext 1 0 0 ex_gmf3 = ex_los"
  by (simp add: start_state_def set_coordinates_def Let_def ex_los_def ex_gmf3_def ex_gmf_def ex_ext_def)

lemma ex_los_grid: "linspace 0 3 (py_int (3 / 1)) True = Inr [0, 3 / 2, 3]"
proof -
  have "[0..<nat 3] = [0, 1, 2]"
    by (simp add: upt_rec)
  then show ?thesis
    by (simp add: linspace_def py_int_def Let_def)
qed

lemma ex_los_couplings:
  "s \<noteq> 1 \<Longrightarrow> coupling_t ex_ext ex_los s = 1 / 5"
  "s \<noteq> 1 \<Longrightarrow> coupling_u ex_ext ex_los s = 0"
  by (simp_all add: coupling_t_def coupling_u_def Bt_val_def Bu_val_def ex_field ex_los_fields)
     (simp_all add: ex_ext_def)

lemma ex_los_sample_warnings:
  "s \<noteq> 1 \<Longrightarrow> sample_warnings ex_ext ex_los s = [Large_Delta_ag_t (1 / 5) s]"
  by (simp add: sample_warnings_def ex_los_couplings pertubation_def)

lemma ex_setup_fields:
  "Lcoh (Pag_setup ex_ext 1 0 0 0 (- 1) ex_gmf3) = 1"
  "smax (Pag_setup ex_ext 1 0 0 0 (- 1) ex_gmf3) = 3"
  "g_icm (Pag_setup ex_ext 1 0 0 0 (- 1) ex_gmf3) = 1 / 5"
  "E_icm (Pag_setup ex_ext 1 0 0 0 (- 1) ex_gmf3) = 1"
  "n_icm (Pag_setup ex_ext 1 0 0 0 (- 1) ex_gmf3) = 1"
  "m_icm (Pag_setup ex_ext 1 0 0 0 (- 1) ex_gmf3) = 0"
  "pol_t ex_gmf3 = 3 / 5" "pol_u ex_gmf3 = 4 / 5"
  by (simp_all add: Pag_setup_def set_coordinates_def Let_def ex_gmf3_def ex_gmf_def)

lemma ex_setup_sample:
  assumes "s \<noteq> 1"
  shows "fst (los_sample ex_ext (Pag_setup ex_ext 1 0 0 0 (- 1) ex_gmf3) s) = 1 / 5"
    and "fst (snd (los_sample ex_ext (Pag_setup ex_ext 1 0 0 0 (- 1) ex_gmf3) s)) = 0"
proof -
  have f: "field_proj ex_ext (Pag_setup ex_ext 1 0 0 0 (- 1) ex_gmf3) s = (0, 1, 0)"
    using assms by (simp add: ex_field)
  show "fst (los_sample ex_ext (Pag_setup ex_ext 1 0 0 0 (- 1) ex_gmf3) s) = 1 / 5"
    unfolding los_sample_def Let_def field_proj_def [symmetric] f ex_setup_fields
    by (simp add: ex_ext_def)
  show "fst (snd (los_sample ex_ext (Pag_setup ex_ext 1 0 0 0 (- 1) ex_gmf3) s)) = 0"
    unfolding los_sample_def Let_def field_proj_def [symmetric] f ex_setup_fields
    by (simp add: ex_ext_def)
qed

lemma ex_setup_los_sample:
  assumes "s \<noteq> 1"
  shows "los_sample ex_ext (Pag_setup ex_ext 1 0 0 0 (- 1) ex_gmf3) s
           = (1 / 5, 0, [Large_Delta_ag_t (1 / 5) s])"
proof -
  have "coupling_t ex_ext (Pag_setup ex_ext 1 0 0 0 (- 1) ex_gmf3) s = 1 / 5"
    and "coupling_u ex_ext (Pag_setup ex_ext 1 0 0 0 (- 1) ex_gmf3) s = 0"
    using assms
    by (simp_all add: coupling_t_def coupling_u_def Bt_val_def Bu_val_def ex_field ex_setup_fields)
       (simp_all add: ex_ext_def)
  then have "snd (snd (los_sample ex_ext (Pag_setup ex_ext 1 0 0 0 (- 1) ex_gmf3) s))
               = [Large_Delta_ag_t (1 / 5) s]"
    by (simp add: los_sample_warnings sample_warnings_def pertubation_def)
  then show ?thesis
    using ex_setup_sample [OF assms] by (simp add: prod_eq_iff)
qed

lemma ex_setup_integrate:
  "integrate_los ex_ext (Pag_setup ex_ext 1 0 0 0 (- 1) ex_gmf3) =
     Inr ((9 / 25, 0, 0),
          [Large_Delta_ag_t (1 / 5) 0, Large_Delta_ag_t (1 / 5) (3 / 2), Large_Delta_ag_t (1 / 5) 3])"
proof -
  have loop: "los_loop ex_ext (Pag_setup ex_ext 1 0 0 0 (- 1) ex_gmf3) [0, 3 / 2, 3] =
     ([1 / 5, 1 / 5, 1 / 5], [0, 0, 0],
      [Large_Delta_ag_t (1 / 5) 0, Large_Delta_ag_t (1 / 5) (3 / 2), Large_Delta_ag_t (1 / 5) 3])"
    by (simp add: Let_def ex_setup_los_sample)
  have sim: "simps ex_ext = trapz"
    by (simp add: ex_ext_def)
  show ?thesis
    unfolding integrate_los_def ex_setup_fields
    using ex_los_grid
    by (simp add: fdiv_def Let_def loop sim complex_gt_def select_def power2_eq_square
        del: los_loop.simps)
qed








lemma ex_igm_values:
  "dz ex_igm = 117 / 100000" "Ln_den ex_igm 1 = 1" "Ln_val ex_igm 1 = 50193 / 10000"
  "difftau_val ex_tau ex_igm 1 = 117 / 100000" "mfn_val ex_tau ex_igm 1 = 4290"
  "difftau_val ex_tau0 ex_igm 1 = 0" "dn_val ex_tau ex_igm 1 = 4719 / 10"
  by (simp_all add: ex_igm_def PhotALPs_init_def Ln_den_def Ln_val_def difftau_val_def mfn_val_def
      dn_val_def ex_tau_def ex_tau0_def)

lemma ex_igm_dn:
  "1 / 2 < dn_val ex_tau0 ex_igm 1" "dn_val ex_tau0 (ex_igm\<lparr>xi := 0\<rparr>) 1 = 0"
  "Ln_den (ex_igm\<lparr>xi := 0\<rparr>) 1 \<noteq> 0" "dz (ex_igm\<lparr>xi := 0\<rparr>) \<noteq> 0"
  by (simp_all add: dn_val_def mfn_val_def difftau_val_def Ln_val_def Ln_den_def ex_tau0_def
      ex_igm_def PhotALPs_init_def)

section \<open>The claims\<close>





text \<open>
  Claim C3, as amended. The cumulative transfer matrix starts at the identity and the
  matrix of each successive domain is multiplied into it from the right,
  \<open>U \<leftarrow> U U\<^sub>n\<close> (the source has \<open>U = np.dot(U, SetDomainN())\<close>): after the domains
  \<open>1, \<dots>, n\<close> of the path the accumulator is \<open>U\<^sub>1 U\<^sub>2 \<cdots> U\<^sub>n\<close>.
\<close>

theorem chain_right_multiplies:
  assumes "T1_frame (T1_icm self)" and "list_all (mixing_defined ext self) sa"
  shows "\<exists>self'. Pag_TM_loop ext sa (ident, self) =
                   Inr (foldl (\<lambda>U s. dot U (domain_matrix ext self s)) ident sa, self')"
  by (rule Pag_TM_loop_value [OF assms])

theorem chain_right_multiplies_witness:
  "T1_frame (T1_icm (start_state ex_ext 1 0 0 ex_gmf)) \<and>
   list_all (mixing_defined ex_ext (start_state ex_ext 1 0 0 ex_gmf)) [2, 1] \<and>
   (\<exists>self'. Pag_TM_loop ex_ext [2, 1] (ident, start_state ex_ext 1 0 0 ex_gmf) =
              Inr (foldl (\<lambda>U s. dot U (domain_matrix ex_ext (start_state ex_ext 1 0 0 ex_gmf) s)) ident [2, 1],
                   self'))"
proof -
  have fr: "T1_frame (T1_icm (start_state ex_ext 1 0 0 ex_gmf))"
    using ex_start_frame by (simp add: ex_start_def)
  have md: "list_all (mixing_defined ex_ext (start_state ex_ext 1 0 0 ex_gmf)) [2, 1]"
    using ex_mixing by (simp add: ex_start_def)
  show ?thesis
    using fr md chain_right_multiplies [OF fr md] by blast
qed

text \<open>
  The claim as stated, \<open>U \<leftarrow> U\<^sub>n U\<close> with the result \<open>U\<^sub>n \<cdots> U\<^sub>1\<close>, fails on a
  path of two domains whose matrices do not commute: the samples 2 and 1 of the example,
  with the matrices \<open>ex_U1\<close> and \<open>ex_U2\<close>. The accumulator is \<open>ex_U1 ex_U2\<close>, which differs
  from \<open>ex_U2 ex_U1\<close>.
\<close>

theorem chain_left_multiplication_counterexample:
  "domain_matrix ex_ext (start_state ex_ext 1 0 0 ex_gmf) 2 = ex_U1 \<and>
   domain_matrix ex_ext (start_state ex_ext 1 0 0 ex_gmf) 1 = ex_U2 \<and>
   map_sum id fst (Pag_TM_loop ex_ext [2, 1] (ident, start_state ex_ext 1 0 0 ex_gmf)) = Inr (dot ex_U1 ex_U2) \<and>
   dot ex_U1 ex_U2 \<noteq> dot ex_U2 ex_U1"
proof -
  have md: "list_all (mixing_defined ex_ext ex_start) [2, 1]"
    using ex_mixing by simp
  from Pag_TM_loop_value [OF ex_start_frame md, of ident] obtain self' where
    "Pag_TM_loop ex_ext [2, 1] (ident, ex_start) = Inr (dot (dot ident ex_U1) ex_U2, self')"
    by (auto simp add: ex_domain_matrices)
  then have run: "map_sum id fst (Pag_TM_loop ex_ext [2, 1] (ident, ex_start)) = Inr (dot ex_U1 ex_U2)"
    by (simp add: dot_ident_left)
  have ne: "dot ex_U1 ex_U2 \<noteq> dot ex_U2 ex_U1"
    by (simp add: dot_def ex_U1_def ex_U2_def)
  show ?thesis
    using run ne ex_domain_matrices by (simp add: ex_start_def)
qed

text \<open>
  Claim C4. The three basis matrices of a domain sum to the identity,
  \<open>T1 + T2 + T3 = I\<close>, for every mixing angle: in the variant with absorption for every
  nonzero \<open>Dn\<close> (and every \<open>dn\<close>), in the variant without absorption for every angle
  \<open>alph\<close>. The entries of \<open>T1\<close> that no method assigns are zero from \<open>__init__\<close> on.
\<close>

theorem basis_matrices_sum_to_identity:
  assumes "T1_frame (T1 igm)" and "Dn igm \<noteq> 0" and "T1_frame (T1_icm icm)"
  shows "madd (madd (T1 (SetT3n (SetT2n (SetT1n igm)))) (T2 (SetT3n (SetT2n (SetT1n igm)))))
              (T3 (SetT3n (SetT2n (SetT1n igm)))) = ident \<and>
         madd (madd (T1_icm (setT3n (setT2n (setT1n icm)))) (T2_icm (setT3n (setT2n (setT1n icm)))))
              (T3_icm (setT3n (setT2n (setT1n icm)))) = ident"
  using igm_sum [OF assms(1,2)] icm_sum [OF assms(3)] by simp

theorem basis_matrices_sum_to_identity_witness:
  "T1_frame (T1 (ex_igm\<lparr>Psin := pi / 3, Dn := 2 * \<i>\<rparr>)) \<and> Dn (ex_igm\<lparr>Psin := pi / 3, Dn := 2 * \<i>\<rparr>) \<noteq> 0 \<and>
   T1_frame (T1_icm (ex_gmf\<lparr>Psin_icm := pi / 3, alph := pi / 6\<rparr>)) \<and>
   madd (madd (T1 (SetT3n (SetT2n (SetT1n (ex_igm\<lparr>Psin := pi / 3, Dn := 2 * \<i>\<rparr>)))))
              (T2 (SetT3n (SetT2n (SetT1n (ex_igm\<lparr>Psin := pi / 3, Dn := 2 * \<i>\<rparr>))))))
        (T3 (SetT3n (SetT2n (SetT1n (ex_igm\<lparr>Psin := pi / 3, Dn := 2 * \<i>\<rparr>))))) = ident \<and>
   madd (madd (T1_icm (setT3n (setT2n (setT1n (ex_gmf\<lparr>Psin_icm := pi / 3, alph := pi / 6\<rparr>)))))
              (T2_icm (setT3n (setT2n (setT1n (ex_gmf\<lparr>Psin_icm := pi / 3, alph := pi / 6\<rparr>))))))
        (T3_icm (setT3n (setT2n (setT1n (ex_gmf\<lparr>Psin_icm := pi / 3, alph := pi / 6\<rparr>))))) = ident"
proof -
  have a: "T1_frame (T1 (ex_igm\<lparr>Psin := pi / 3, Dn := 2 * \<i>\<rparr>))"
    using init_frame [of 5 1] by (simp add: ex_igm_def)
  have b: "Dn (ex_igm\<lparr>Psin := pi / 3, Dn := 2 * \<i>\<rparr>) \<noteq> 0"
    by simp
  have c: "T1_frame (T1_icm (ex_gmf\<lparr>Psin_icm := pi / 3, alph := pi / 6\<rparr>))"
    using ex_gmf_frame by simp
  show ?thesis
    using a b c basis_matrices_sum_to_identity [OF a b c] by simp
qed

text \<open>
  Claim C5. In the variant with absorption the eigenvalues that \<open>SetDomainN\<close> computes
  are the closed forms \<open>EW1 = -1/(2 mfn)\<close>, \<open>EW2 = -1/(4 mfn) (1 + D)\<close>,
  \<open>EW3 = -1/(4 mfn) (1 - D)\<close> with \<open>D = sqrt(1 - 4 d\<^sup>2)\<close>, and the transfer matrix is
  \<open>exp(EW1 L) T1 + exp(EW2 L) T2 + exp(EW3 L) T3\<close> with \<open>L\<close> the domain length. The
  hypotheses say that the two divisions of floats do not raise and that \<open>D\<close>, by which
  the entries of \<open>T2\<close> and \<open>T3\<close> are divided, is not zero.
\<close>

theorem absorptive_eigenvalues_closed_form:
  assumes "Ln_den self n \<noteq> 0" and "mfn_val od self n \<noteq> 0" and "Dn_val od self n \<noteq> 0"
  shows "\<exists>self'. SetDomainN od n self = Inr self' \<and>
           mfn_print self' = mfn_val od self n \<and> Ln self' = Some (Ln_val self n) \<and>
           dn self' = dn_val od self n \<and>
           complex_of_real (EW1n self') = spec_EW1 (mfn_print self') \<and>
           EW2n self' = spec_EW2 (mfn_print self') (Dn self') \<and>
           EW3n self' = spec_EW3 (mfn_print self') (Dn self') \<and>
           Dn self' = spec_D (dn self') \<and>
           Un_mat self' = spec_Un (complex_of_real (EW1n self')) (EW2n self') (EW3n self')
                            (Ln_val self n) (T1 self') (T2 self') (T3 self')"
proof -
  obtain self' where run: "SetDomainN od n self = Inr self'"
    using SetDomainN_result [OF assms(1,2)] by simp
  show ?thesis
    using run SetDomainN_values [OF run] by blast
qed

theorem absorptive_eigenvalues_closed_form_witness:
  "Ln_den ex_igm 1 \<noteq> 0 \<and> mfn_val ex_tau ex_igm 1 \<noteq> 0 \<and> Dn_val ex_tau ex_igm 1 \<noteq> 0 \<and>
   (\<exists>self'. SetDomainN ex_tau 1 ex_igm = Inr self' \<and>
           mfn_print self' = mfn_val ex_tau ex_igm 1 \<and> Ln self' = Some (Ln_val ex_igm 1) \<and>
           dn self' = dn_val ex_tau ex_igm 1 \<and>
           complex_of_real (EW1n self') = spec_EW1 (mfn_print self') \<and>
           EW2n self' = spec_EW2 (mfn_print self') (Dn self') \<and>
           EW3n self' = spec_EW3 (mfn_print self') (Dn self') \<and>
           Dn self' = spec_D (dn self') \<and>
           Un_mat self' = spec_Un (complex_of_real (EW1n self')) (EW2n self') (EW3n self')
                            (Ln_val ex_igm 1) (T1 self') (T2 self') (T3 self'))"
proof -
  have a: "Ln_den ex_igm 1 \<noteq> 0" and b: "mfn_val ex_tau ex_igm 1 \<noteq> 0"
    by (simp_all add: ex_igm_values)
  have "(1::complex) - 4 * (complex_of_real (4719 / 10))\<^sup>2 = complex_of_real (1 - 4 * (4719 / 10)\<^sup>2)"
    by simp
  also have "\<dots> \<noteq> 0"
    unfolding of_real_eq_0_iff by (simp add: power2_eq_square)
  finally have c: "Dn_val ex_tau ex_igm 1 \<noteq> 0"
    by (simp add: Dn_val_def ex_igm_values)
  show ?thesis
    using a b c absorptive_eigenvalues_closed_form [OF a b c] by simp
qed

text \<open>
  Claim C6. Where the difference of optical depths across the domain is exactly zero,
  \<open>SetDomainN\<close> does not raise and does not divide by that difference: the mean free path
  is the domain length divided by 1e-20 and the computation goes on with it. The domain
  is one of well-defined, nonzero length: the denominator of \<open>self.Ln\<close> and the redshift
  step \<open>self.dz\<close> are not zero.
\<close>

theorem zero_difftau_fallback:
  assumes zero: "difftau_val od self n = 0"
    and den: "Ln_den self n \<noteq> 0" and dz: "dz self \<noteq> 0"
  shows "\<exists>self'. SetDomainN od n self = Inr self' \<and>
           mfn_print self' = Ln_val self n / (1 / 10 ^ 20) \<and>
           mfn_print self' \<noteq> 0 \<and>
           dtau self' = 0 \<and>
           Ln self' = Some (Ln_val self n) \<and>
           EW1n self' = - 0.5 / (Ln_val self n / (1 / 10 ^ 20)) \<and>
           dn self' = 0.11 * xi self * (Ln_val self n / (1 / 10 ^ 20)) * (1 + (real_of_int n - 1) * dz self)\<^sup>2"
proof -
  have m: "mfn_val od self n = Ln_val self n / (1 / 10 ^ 20)"
    using zero by (simp add: mfn_val_def)
  have nz: "mfn_val od self n \<noteq> 0"
    by (rule mfn_val_nonzero [OF den dz])
  show ?thesis
    unfolding SetDomainN_result [OF den nz]
    using nz zero
    by (simp add: T_set_fields domain_prepared_def m dn_val_def)
qed

theorem zero_difftau_fallback_witness:
  "difftau_val ex_tau0 ex_igm 1 = 0 \<and> Ln_den ex_igm 1 \<noteq> 0 \<and> dz ex_igm \<noteq> 0 \<and>
   (\<exists>self'. SetDomainN ex_tau0 1 ex_igm = Inr self' \<and>
           mfn_print self' = Ln_val ex_igm 1 / (1 / 10 ^ 20) \<and>
           mfn_print self' \<noteq> 0 \<and>
           dtau self' = 0 \<and>
           Ln self' = Some (Ln_val ex_igm 1) \<and>
           EW1n self' = - 0.5 / (Ln_val ex_igm 1 / (1 / 10 ^ 20)) \<and>
           dn self' = 0.11 * xi ex_igm * (Ln_val ex_igm 1 / (1 / 10 ^ 20)) * (1 + (real_of_int 1 - 1) * dz ex_igm)\<^sup>2)"
proof -
  have a: "difftau_val ex_tau0 ex_igm 1 = 0" and b: "Ln_den ex_igm 1 \<noteq> 0" and c: "dz ex_igm \<noteq> 0"
    by (simp_all add: ex_igm_values)
  show ?thesis
    using a b c zero_difftau_fallback [OF a b c] by simp
qed

text \<open>
  Claim C7. The discriminant \<open>D = sqrt(1 - 4 d\<^sup>2)\<close> is computed in complex arithmetic:
  for a domain of well-defined, nonzero length \<open>SetDomainN\<close> returns for every value of
  the coupling term \<open>d\<close>; \<open>D\<close> is the principal complex square root, which is \<open>1\<close> at
  \<open>d = 0\<close> and \<open>i sqrt(4 d\<^sup>2 - 1)\<close> for \<open>d > 0.5\<close>.
\<close>

theorem complex_discriminant:
  assumes den: "Ln_den self n \<noteq> 0" and dz: "dz self \<noteq> 0"
  shows "\<exists>self'. SetDomainN od n self = Inr self' \<and>
           dn self' = dn_val od self n \<and>
           Dn self' = csqrt (1 - 4 * (complex_of_real (dn self'))\<^sup>2) \<and>
           (dn self' = 0 \<longrightarrow> Dn self' = 1) \<and>
           (1 / 2 < dn self' \<longrightarrow> Dn self' = \<i> * complex_of_real (sqrt (4 * (dn self')\<^sup>2 - 1)))"
proof -
  have nz: "mfn_val od self n \<noteq> 0"
    by (rule mfn_val_nonzero [OF den dz])
  have D: "Dn_val od self n = csqrt (1 - 4 * (complex_of_real (dn_val od self n))\<^sup>2)"
    by (simp add: Dn_val_def)
  have big: "Dn_val od self n = \<i> * complex_of_real (sqrt (4 * (dn_val od self n)\<^sup>2 - 1))"
    if "1 / 2 < dn_val od self n"
  proof -
    have "(1 / 2)\<^sup>2 < (dn_val od self n)\<^sup>2"
      using that by (intro power_strict_mono) simp_all
    then have neg: "1 - 4 * (dn_val od self n)\<^sup>2 < 0"
      by (simp add: power2_eq_square)
    have "Dn_val od self n = csqrt (complex_of_real (1 - 4 * (dn_val od self n)\<^sup>2))"
      by (simp add: Dn_val_def)
    also have "\<dots> = \<i> * complex_of_real (sqrt (- (1 - 4 * (dn_val od self n)\<^sup>2)))"
      by (rule csqrt_neg_real [OF neg])
    finally show ?thesis by simp
  qed
  have small: "Dn_val od self n = 1" if "dn_val od self n = 0"
    using that by (simp add: Dn_val_def)
  show ?thesis
    unfolding SetDomainN_result [OF den nz]
    using D big small
    by (simp add: T_set_fields domain_prepared_def)
qed

theorem complex_discriminant_witness:
  "Ln_den ex_igm 1 \<noteq> 0 \<and> dz ex_igm \<noteq> 0 \<and> 1 / 2 < dn_val ex_tau0 ex_igm 1 \<and>
   (\<exists>self'. SetDomainN ex_tau0 1 ex_igm = Inr self' \<and>
           dn self' = dn_val ex_tau0 ex_igm 1 \<and>
           Dn self' = \<i> * complex_of_real (sqrt (4 * (dn self')\<^sup>2 - 1))) \<and>
   Ln_den (ex_igm\<lparr>xi := 0\<rparr>) 1 \<noteq> 0 \<and> dz (ex_igm\<lparr>xi := 0\<rparr>) \<noteq> 0 \<and>
   dn_val ex_tau0 (ex_igm\<lparr>xi := 0\<rparr>) 1 = 0 \<and>
   (\<exists>self'. SetDomainN ex_tau0 1 (ex_igm\<lparr>xi := 0\<rparr>) = Inr self' \<and> dn self' = 0 \<and> Dn self' = 1)"
proof -
  have b: "Ln_den ex_igm 1 \<noteq> 0" and c: "dz ex_igm \<noteq> 0"
    by (simp_all add: ex_igm_values)
  have 1: "\<exists>self'. SetDomainN ex_tau0 1 ex_igm = Inr self' \<and>
           dn self' = dn_val ex_tau0 ex_igm 1 \<and>
           Dn self' = \<i> * complex_of_real (sqrt (4 * (dn self')\<^sup>2 - 1))"
    using complex_discriminant [OF b c, of ex_tau0] ex_igm_dn(1) by auto
  have 2: "\<exists>self'. SetDomainN ex_tau0 1 (ex_igm\<lparr>xi := 0\<rparr>) = Inr self' \<and> dn self' = 0 \<and> Dn self' = 1"
    using complex_discriminant [OF ex_igm_dn(3,4), of ex_tau0] ex_igm_dn(2) by auto
  show ?thesis
    using b c ex_igm_dn 1 2 by blast
qed

text \<open>
  Claim C8, as amended. When the coupling term of a sample exceeds the bound 0.10,
  \<open>integrate_los\<close> emits a warning and still returns its result; the warning is emitted
  at every sample, and for each of the two transverse components, whose coupling term
  exceeds the bound: over a region of \<open>k\<close> consecutive violating samples there are \<open>k\<close>
  warnings for each violating component.
\<close>

theorem warning_per_violating_sample:
  assumes "Lcoh self \<noteq> 0"
    and "linspace 0 (smax self) (py_int (smax self / Lcoh self)) True = Inr sa"
  shows "\<exists>r ws. integrate_los ext self = Inr (r, ws) \<and>
           ws = concat (map (sample_warnings ext self) sa) \<and>
           length ws = length (filter (\<lambda>s. pertubation < coupling_t ext self s) sa) +
                       length (filter (\<lambda>s. pertubation < coupling_u ext self s) sa)"
  using integrate_los_warnings [OF assms, of ext] sample_warnings_count [of ext self sa]
  by auto

theorem warning_per_violating_sample_witness:
  "Lcoh ex_los \<noteq> 0 \<and>
   linspace 0 (smax ex_los) (py_int (smax ex_los / Lcoh ex_los)) True = Inr [0, 3 / 2, 3] \<and>
   (\<exists>r ws. integrate_los ex_ext ex_los = Inr (r, ws) \<and>
           ws = concat (map (sample_warnings ex_ext ex_los) [0, 3 / 2, 3]) \<and>
           length ws = length (filter (\<lambda>s. pertubation < coupling_t ex_ext ex_los s) [0, 3 / 2, 3]) +
                       length (filter (\<lambda>s. pertubation < coupling_u ex_ext ex_los s) [0, 3 / 2, 3]))"
proof -
  have L: "Lcoh ex_los \<noteq> 0"
    by (simp add: ex_los_fields)
  have grid: "linspace 0 (smax ex_los) (py_int (smax ex_los / Lcoh ex_los)) True = Inr [0, 3 / 2, 3]"
    using ex_los_grid by (simp add: ex_los_fields)
  show ?thesis
    using L grid warning_per_violating_sample [OF L grid, of ex_ext] by blast
qed

text \<open>
  The claim as stated, one warning for a region of violating samples, fails on three
  consecutive samples with the coupling term at 0.20: three warnings are emitted.
\<close>

theorem warning_once_per_region_counterexample:
  "coupling_t ex_ext ex_los 0 = 1 / 5 \<and> coupling_t ex_ext ex_los (3 / 2) = 1 / 5 \<and>
   coupling_t ex_ext ex_los 3 = 1 / 5 \<and>
   map_sum id snd (integrate_los ex_ext ex_los) =
     Inr [Large_Delta_ag_t (1 / 5) 0, Large_Delta_ag_t (1 / 5) (3 / 2), Large_Delta_ag_t (1 / 5) 3]"
proof -
  have L: "Lcoh ex_los \<noteq> 0"
    by (simp add: ex_los_fields)
  have grid: "linspace 0 (smax ex_los) (py_int (smax ex_los / Lcoh ex_los)) True = Inr [0, 3 / 2, 3]"
    using ex_los_grid by (simp add: ex_los_fields)
  from integrate_los_warnings [OF L grid, of ex_ext] obtain r where
    "integrate_los ex_ext ex_los = Inr (r, concat (map (sample_warnings ex_ext ex_los) [0, 3 / 2, 3]))"
    by blast
  then have "map_sum id snd (integrate_los ex_ext ex_los) =
     Inr [Large_Delta_ag_t (1 / 5) 0, Large_Delta_ag_t (1 / 5) (3 / 2), Large_Delta_ag_t (1 / 5) 3]"
    by (simp add: ex_los_sample_warnings)
  then show ?thesis
    by (simp add: ex_los_couplings)
qed




text \<open>
  Claim C10. \<open>Pag\<close> assigns a polarization weight only when its argument is strictly
  positive: called with \<open>pol_t \<le> 0\<close> (or \<open>pol_u \<le> 0\<close>) it leaves the stored weight as it
  was, and the probability it returns is computed from the stored weights.
\<close>

theorem Pag_keeps_stored_weights:
  "(pt \<le> 0 \<longrightarrow> pol_t (Pag_setup ext E ra dec pt pu self) = pol_t self) \<and>
   (pu \<le> 0 \<longrightarrow> pol_u (Pag_setup ext E ra dec pt pu self) = pol_u self) \<and>
   Pag ext E ra dec pt pu self =
     (case integrate_los ext (Pag_setup ext E ra dec pt pu self) of
        Inl err \<Rightarrow> Inl err
      | Inr r \<Rightarrow>
          Inr ((pol_t (Pag_setup ext E ra dec pt pu self))\<^sup>2 * fst (fst r)
                 + (pol_u (Pag_setup ext E ra dec pt pu self))\<^sup>2 * fst (snd (fst r)),
               Pag_setup ext E ra dec pt pu self, snd r))"
  by (simp add: Pag_setup_weights Pag_def Let_def split: sum.splits)

theorem Pag_keeps_stored_weights_witness:
  "pol_t (Pag_setup ex_ext 1 0 0 0 (- 1) ex_gmf3) = pol_t ex_gmf3 \<and>
   pol_u (Pag_setup ex_ext 1 0 0 0 (- 1) ex_gmf3) = pol_u ex_gmf3 \<and>
   pol_t ex_gmf3 = 3 / 5 \<and> pol_u ex_gmf3 = 4 / 5 \<and>
   map_sum id fst (Pag ex_ext 1 0 0 0 (- 1) ex_gmf3) = Inr (81 / 625)"
proof -
  note inst = Pag_keeps_stored_weights [of 0 ex_ext 1 0 0 "- 1" ex_gmf3]
  have t: "pol_t (Pag_setup ex_ext 1 0 0 0 (- 1) ex_gmf3) = pol_t ex_gmf3"
    and u: "pol_u (Pag_setup ex_ext 1 0 0 0 (- 1) ex_gmf3) = pol_u ex_gmf3"
    using inst by simp_all
  have "map_sum id fst (Pag ex_ext 1 0 0 0 (- 1) ex_gmf3) = Inr (81 / 625)"
    using inst by (simp add: ex_setup_integrate t u ex_setup_fields power2_eq_square)
  then show ?thesis
    using t u by (simp add: ex_setup_fields)
qed

end
